theory Spec2Isabelle
  imports Complex_Main "HOL-Library.Sublist"
begin

section \<open>Python values and the operations the routes apply to them\<close>

text \<open>
  The handlers work on values decoded from JSON (\<^verbatim>\<open>response.json()\<close>, \<^verbatim>\<open>json.loads\<close>,
  request bodies) and on \<^verbatim>\<open>Optional[str]\<close> fields. They are modelled by one datatype of
  Python values. A dict is an association list read with \<open>map_of\<close> (the first binding of
  a key counts). A float is its exact rational value, or one of the three special values
  that Python's JSON decoder accepts.
\<close>

datatype pyfloat = Finite rat | PosInf | NegInf | NaN

datatype pyval =
    PNone
  | PBool bool
  | PInt int
  | PFloat pyfloat
  | PStr string
  | PList "pyval list"
  | PDict "(string \<times> pyval) list"

text \<open>
  Exceptions. The first five are raised by the built-in operations below;
  \<open>LibraryError m\<close> is any exception raised inside a library call (the HTTP client, the
  generative client), \<open>m\<close> being its message.
\<close>

datatype py_exc =
    TypeError
  | AttributeError
  | KeyError
  | IndexError
  | JSONDecodeError
  | LibraryError string

definition andthen :: "'e + 'a \<Rightarrow> ('a \<Rightarrow> 'e + 'b) \<Rightarrow> 'e + 'b" where
  "andthen m f = (case m of Inl e \<Rightarrow> Inl e | Inr x \<Rightarrow> f x)"

text \<open>\<^verbatim>\<open>bool(v)\<close>: what \<^verbatim>\<open>if v\<close>, \<^verbatim>\<open>not v\<close> and \<^verbatim>\<open>v or w\<close> test.\<close>

fun truthy :: "pyval \<Rightarrow> bool" where
  "truthy PNone = False"
| "truthy (PBool b) = b"
| "truthy (PInt i) = (i \<noteq> 0)"
| "truthy (PFloat f) = (f \<noteq> Finite 0)"
| "truthy (PStr s) = (s \<noteq> [])"
| "truthy (PList xs) = (xs \<noteq> [])"
| "truthy (PDict kvs) = (kvs \<noteq> [])"

text \<open>\<^verbatim>\<open>a or b\<close> on values (both operands already evaluated).\<close>

definition py_or :: "pyval \<Rightarrow> pyval \<Rightarrow> pyval" where
  "py_or a b = (if truthy a then a else b)"

text \<open>\<^verbatim>\<open>k in v\<close> for a string \<open>k\<close>: key of a dict, element of a list, substring of a string.\<close>

fun py_in :: "string \<Rightarrow> pyval \<Rightarrow> py_exc + bool" where
  "py_in k (PDict kvs) = Inr (k \<in> set (map fst kvs))"
| "py_in k (PList xs) = Inr (PStr k \<in> set xs)"
| "py_in k (PStr s) = Inr (sublist k s)"
| "py_in k v = Inl TypeError"

text \<open>\<^verbatim>\<open>len(v)\<close>.\<close>

fun py_len :: "pyval \<Rightarrow> py_exc + nat" where
  "py_len (PStr s) = Inr (length s)"
| "py_len (PList xs) = Inr (length xs)"
| "py_len (PDict kvs) = Inr (length (remdups (map fst kvs)))"
| "py_len v = Inl TypeError"

text \<open>\<^verbatim>\<open>v[0]\<close>. The keys of a decoded dict are strings, so \<open>0\<close> is never one of them.\<close>

fun py_first :: "pyval \<Rightarrow> py_exc + pyval" where
  "py_first (PList []) = Inl IndexError"
| "py_first (PList (x # xs)) = Inr x"
| "py_first (PStr []) = Inl IndexError"
| "py_first (PStr (c # cs)) = Inr (PStr [c])"
| "py_first (PDict kvs) = Inl KeyError"
| "py_first v = Inl TypeError"

text \<open>\<^verbatim>\<open>v["k"]\<close>.\<close>

fun py_item :: "pyval \<Rightarrow> string \<Rightarrow> py_exc + pyval" where
  "py_item (PDict kvs) k = (case map_of kvs k of None \<Rightarrow> Inl KeyError | Some v \<Rightarrow> Inr v)"
| "py_item v k = Inl TypeError"

text \<open>\<^verbatim>\<open>v.get("k", d)\<close>; only a dict has the method.\<close>

fun py_get :: "pyval \<Rightarrow> string \<Rightarrow> pyval \<Rightarrow> py_exc + pyval" where
  "py_get (PDict kvs) k d = Inr (case map_of kvs k of None \<Rightarrow> d | Some v \<Rightarrow> v)"
| "py_get v k d = Inl AttributeError"

fun is_list :: "pyval \<Rightarrow> bool" where
  "is_list (PList xs) = True"
| "is_list v = False"

section \<open>The upstream service\<close>

text \<open>
  \<^verbatim>\<open>requests.get(url, params=..., headers=...)\<close> either raises or returns a response with
  its \<^verbatim>\<open>ok\<close> flag and a body; \<^verbatim>\<open>response.json()\<close> raises when the body is not JSON
  (\<open>None\<close>). The upstream is a function of the position of the call within the handling
  of one request and of the request sent, so that two calls with the same arguments may
  be answered differently.
\<close>

datatype http_request =
  Request (url: string) (params: "(string \<times> pyval) list") (headers: "(string \<times> pyval) list")

datatype http_response = Response (ok: bool) (body: "pyval option")

datatype http_outcome = Raises py_exc | Returns http_response

type_synonym upstream = "nat \<Rightarrow> http_request \<Rightarrow> http_outcome"

text \<open>
  A computation that calls the upstream: from the position of the next call to a value
  or an exception, and the position after it.
\<close>

type_synonym 'a io = "nat \<Rightarrow> (py_exc + 'a) \<times> nat"

definition io_return :: "'a \<Rightarrow> 'a io" where
  "io_return x = (\<lambda>n. (Inr x, n))"

definition io_lift :: "py_exc + 'a \<Rightarrow> 'a io" where
  "io_lift m = (\<lambda>n. (m, n))"

definition io_bind :: "'a io \<Rightarrow> ('a \<Rightarrow> 'b io) \<Rightarrow> 'b io" where
  "io_bind m f = (\<lambda>n. case m n of (Inl e, n') \<Rightarrow> (Inl e, n') | (Inr x, n') \<Rightarrow> f x n')"

text \<open>\<^verbatim>\<open>try: m  except Exception: h\<close>.\<close>

definition io_try :: "'a io \<Rightarrow> (py_exc \<Rightarrow> 'a io) \<Rightarrow> 'a io" where
  "io_try m h = (\<lambda>n. case m n of (Inl e, n') \<Rightarrow> h e n' | (Inr x, n') \<Rightarrow> (Inr x, n'))"

definition requests_get :: "upstream \<Rightarrow> http_request \<Rightarrow> http_response io" where
  "requests_get up req =
     (\<lambda>n. (case up n req of Raises e \<Rightarrow> Inl e | Returns r \<Rightarrow> Inr r, Suc n))"

definition response_json :: "http_response \<Rightarrow> py_exc + pyval" where
  "response_json r = (case body r of None \<Rightarrow> Inl JSONDecodeError | Some v \<Rightarrow> Inr v)"

text \<open>The module constants of \<^verbatim>\<open>routes.py\<close>, read from the environment at import.\<close>

record config =
  QLOO_API_BASE :: string
  QLOO_API_KEY :: pyval

definition HEADERS :: "config \<Rightarrow> (string \<times> pyval) list" where
  "HEADERS cfg = [(''accept'', PStr ''application/json''), (''x-api-key'', QLOO_API_KEY cfg)]"

section \<open>Entity resolver: \<^verbatim>\<open>fetch_entity_id\<close>\<close>

definition search_request :: "config \<Rightarrow> pyval \<Rightarrow> string \<Rightarrow> http_request" where
  "search_request cfg name entity_type =
     Request (QLOO_API_BASE cfg @ ''/search'')
       [(''query'', name), (''types'', PStr (''urn:entity:'' @ entity_type))]
       (HEADERS cfg)"

text \<open>\<^verbatim>\<open>'results' in data and len(data['results']) > 0\<close>.\<close>

definition has_results :: "pyval \<Rightarrow> py_exc + bool" where
  "has_results data =
     andthen (py_in ''results'' data) (\<lambda>has.
       if has then
         andthen (py_item data ''results'') (\<lambda>r.
         andthen (py_len r) (\<lambda>l. Inr (0 < l)))
       else Inr False)"

text \<open>\<^verbatim>\<open>isinstance(data, list) and len(data) > 0 and "entity_id" in data[0]\<close>.\<close>

definition is_id_array :: "pyval \<Rightarrow> py_exc + bool" where
  "is_id_array data =
     (if is_list data then
        andthen (py_len data) (\<lambda>l.
          if 0 < l then andthen (py_first data) (\<lambda>x. py_in ''entity_id'' x)
          else Inr False)
      else Inr False)"

text \<open>The statements of the \<^verbatim>\<open>try\<close> block that follow the call, on the response.\<close>

definition entity_id_of :: "http_response \<Rightarrow> py_exc + pyval" where
  "entity_id_of response =
     (if ok response then
        andthen (response_json response) (\<lambda>data.
        andthen (has_results data) (\<lambda>new_format.
          if new_format then
            andthen (py_item data ''results'') (\<lambda>r.
            andthen (py_first r) (\<lambda>x. py_get x ''entity_id'' PNone))
          else
            andthen (is_id_array data) (\<lambda>old_format.
              if old_format then
                andthen (py_first data) (\<lambda>x. py_item x ''entity_id'')
              else Inr PNone)))
      else Inr PNone)"

definition fetch_entity_id :: "config \<Rightarrow> upstream \<Rightarrow> pyval \<Rightarrow> string \<Rightarrow> pyval io" where
  "fetch_entity_id cfg up name entity_type =
     (if \<not> truthy (QLOO_API_KEY cfg) then io_return PNone
      else io_try
             (io_bind (requests_get up (search_request cfg name entity_type)) (\<lambda>response.
                io_lift (entity_id_of response)))
             (\<lambda>e. io_return PNone))"

text \<open>
  The entity id carried by the first entry of a decoded search response, in either of
  the two shapes the upstream uses; \<open>None\<close> when the response has no such entry.
\<close>

fun first_entity_id :: "pyval \<Rightarrow> pyval option" where
  "first_entity_id (PDict kvs) =
     (case map_of kvs ''results'' of
        Some (PList (PDict r # rs)) \<Rightarrow> map_of r ''entity_id''
      | _ \<Rightarrow> None)"
| "first_entity_id (PList (PDict r # rs)) = map_of r ''entity_id''"
| "first_entity_id v = None"

fun has_entity_id :: "pyval \<Rightarrow> bool" where
  "has_entity_id (PDict r) = (''entity_id'' \<in> set (map fst r))"
| "has_entity_id v = False"

section \<open>Recommendation aggregator: \<^verbatim>\<open>get_insights\<close>, \<^verbatim>\<open>get_popular_books\<close>\<close>

text \<open>\<^verbatim>\<open>",".join(entity_ids)\<close>: every item has to be a string.\<close>

fun py_join :: "pyval list \<Rightarrow> py_exc + string" where
  "py_join [] = Inr []"
| "py_join [PStr s] = Inr s"
| "py_join (PStr s # x # xs) = andthen (py_join (x # xs)) (\<lambda>r. Inr (s @ '','' @ r))"
| "py_join (v # xs) = Inl TypeError"

text \<open>
  \<^verbatim>\<open>if 'results' in data and 'entities' in data['results']\<close>: the value of
  \<^verbatim>\<open>data['results']['entities']\<close> when the test holds.
\<close>

definition results_entities :: "pyval \<Rightarrow> py_exc + pyval option" where
  "results_entities data =
     andthen (py_in ''results'' data) (\<lambda>has.
       if has then
         andthen (py_item data ''results'') (\<lambda>r.
         andthen (py_in ''entities'' r) (\<lambda>has_entities.
           if has_entities then andthen (py_item r ''entities'') (\<lambda>es. Inr (Some es))
           else Inr None))
       else Inr None)"

definition entities_or_empty :: "http_response \<Rightarrow> py_exc + pyval" where
  "entities_or_empty response =
     (if ok response then
        andthen (response_json response) (\<lambda>data.
        andthen (results_entities data) (\<lambda>es.
          case es of Some v \<Rightarrow> Inr v | None \<Rightarrow> Inr (PList [])))
      else Inr (PList []))"

definition insights_request ::
  "config \<Rightarrow> string \<Rightarrow> pyval \<Rightarrow> pyval \<Rightarrow> string \<Rightarrow> http_request" where
  "insights_request cfg joined_ids age gender domain =
     Request (QLOO_API_BASE cfg @ ''/v2/insights'')
       [(''filter.type'', PStr (''urn:entity:'' @ domain)),
        (''signal.interests.entities'', PStr joined_ids),
        (''signal.demographics.age'', age),
        (''signal.demographics.gender'', gender),
        (''feature.explainability'', PStr ''true''),
        (''take'', PStr ''10'')]
       (HEADERS cfg)"

definition get_insights ::
  "config \<Rightarrow> upstream \<Rightarrow> pyval list \<Rightarrow> pyval \<Rightarrow> pyval \<Rightarrow> string \<Rightarrow> pyval io" where
  "get_insights cfg up entity_ids age gender domain =
     io_bind (io_lift (py_join entity_ids)) (\<lambda>joined_ids.
       io_try
         (io_bind (requests_get up (insights_request cfg joined_ids age gender domain))
            (\<lambda>response. io_lift (entities_or_empty response)))
         (\<lambda>e. io_return (PList [])))"

definition popular_request :: "config \<Rightarrow> http_request" where
  "popular_request cfg =
     Request (QLOO_API_BASE cfg @ ''/v2/insights'')
       [(''filter.type'', PStr ''urn:entity:book''),
        (''filter.popularity.min'', PStr ''0.95''),
        (''feature.explainability'', PStr ''true''),
        (''take'', PStr ''10'')]
       (HEADERS cfg)"

definition get_popular_books ::
  "config \<Rightarrow> upstream \<Rightarrow> pyval list \<Rightarrow> pyval \<Rightarrow> pyval \<Rightarrow> pyval io" where
  "get_popular_books cfg up entity_ids age gender =
     io_try
       (io_bind (requests_get up (popular_request cfg))
          (\<lambda>response. io_lift (entities_or_empty response)))
       (\<lambda>e. io_return (PList []))"

section \<open>Result normalizer (the body of the loop of \<^verbatim>\<open>search_entities\<close>)\<close>

text \<open>
  \<^verbatim>\<open>details.get('image_url') or details.get('image') or details.get('cover_image') or
  (details.get('properties', {}).get('image', {}).get('url') if details.get('properties') else None)\<close>
\<close>

definition image_url_of :: "pyval \<Rightarrow> py_exc + pyval" where
  "image_url_of details =
     andthen (py_get details ''image_url'' PNone) (\<lambda>a. if truthy a then Inr a else
     andthen (py_get details ''image'' PNone) (\<lambda>b. if truthy b then Inr b else
     andthen (py_get details ''cover_image'' PNone) (\<lambda>c. if truthy c then Inr c else
     andthen (py_get details ''properties'' PNone) (\<lambda>p.
       if truthy p then
         andthen (py_get details ''properties'' (PDict [])) (\<lambda>props.
         andthen (py_get props ''image'' (PDict [])) (\<lambda>img.
         py_get img ''url'' PNone))
       else Inr PNone))))"

text \<open>\<^verbatim>\<open>details.get(k) or details.get('properties', {}).get(k)\<close>\<close>

definition field_or_property :: "pyval \<Rightarrow> string \<Rightarrow> py_exc + pyval" where
  "field_or_property details k =
     andthen (py_get details k PNone) (\<lambda>a. if truthy a then Inr a else
     andthen (py_get details ''properties'' (PDict [])) (\<lambda>props.
     py_get props k PNone))"

text \<open>\<^verbatim>\<open>details.get('goodreads_id') or details.get('external', {}).get('goodreads')\<close>\<close>

definition goodreads_of :: "pyval \<Rightarrow> py_exc + pyval" where
  "goodreads_of details =
     andthen (py_get details ''goodreads_id'' PNone) (\<lambda>a. if truthy a then Inr a else
     andthen (py_get details ''external'' (PDict [])) (\<lambda>ext.
     py_get ext ''goodreads'' PNone))"

text \<open>The entries of a dict display, evaluated in the order they are written.\<close>

fun entries :: "(string \<Rightarrow> py_exc + pyval) \<Rightarrow> string list \<Rightarrow> py_exc + (string \<times> pyval) list" where
  "entries f [] = Inr []"
| "entries f (k # ks) =
     andthen (f k) (\<lambda>v. andthen (entries f ks) (\<lambda>r. Inr ((k, v) # r)))"

definition property_keys :: "string list" where
  "property_keys =
     [''short_description'', ''description'', ''publication_year'', ''publication_date'',
      ''genre'', ''page_count'', ''language'', ''publisher'', ''isbn13'', ''format'']"

text \<open>Lines 196 to 231: the entity built from \<open>details\<close>.\<close>

definition normalize_entity :: "pyval \<Rightarrow> string \<Rightarrow> string \<Rightarrow> py_exc + pyval" where
  "normalize_entity details query entity_type =
     andthen (image_url_of details) (\<lambda>image_url.
     andthen (py_get details ''entity_id'' PNone) (\<lambda>eid.
     andthen (py_get details ''name'' (PStr query)) (\<lambda>nm.
     andthen (entries (\<lambda>k. py_get details k PNone) [''rating'', ''rating_count'', ''author''])
       (\<lambda>plain.
     andthen (entries (field_or_property details) property_keys) (\<lambda>props.
     andthen (goodreads_of details) (\<lambda>cond.
     andthen (if truthy cond then
                andthen (goodreads_of details) (\<lambda>g. Inr (PDict [(''goodreads'', g)]))
              else Inr PNone) (\<lambda>external.
     Inr (PDict
       ([(''entity_id'', eid), (''name'', nm), (''type'', PStr entity_type),
         (''image'', image_url), (''image_url'', image_url)] @ plain @
        [(''properties'',
            PDict (props @
              [(''image'', if truthy image_url then PDict [(''url'', image_url)] else PNone)])),
         (''external'', external)])))))))))"

text \<open>The fields the normalizer reads besides \<^verbatim>\<open>entity_id\<close> and \<^verbatim>\<open>name\<close>.\<close>

definition optional_keys :: "string list" where
  "optional_keys =
     [''image_url'', ''image'', ''cover_image'', ''properties'', ''rating'', ''rating_count'',
      ''author''] @ property_keys @ [''goodreads_id'', ''external'']"

section \<open>\<^verbatim>\<open>search_entities\<close>\<close>

definition detail_request :: "config \<Rightarrow> string \<Rightarrow> pyval \<Rightarrow> http_request" where
  "detail_request cfg entity_type entity_id =
     Request (QLOO_API_BASE cfg @ ''/v2/insights'')
       [(''filter.type'', PStr (''urn:entity:'' @ entity_type)),
        (''filter.entity_id'', entity_id),
        (''feature.explainability'', PStr ''true''),
        (''take'', PStr ''1'')]
       (HEADERS cfg)"

text \<open>Lines 150 to 153, on the response of the detail lookup.\<close>

definition found_entities :: "http_response \<Rightarrow> py_exc + pyval option" where
  "found_entities response =
     (if ok response then andthen (response_json response) results_entities else Inr None)"

text \<open>Lines 186 to 189: the first entity of the detail lookup, \<open>PNone\<close> without one.\<close>

definition first_detail :: "http_response \<Rightarrow> py_exc + pyval" where
  "first_detail response =
     (if ok response then
        andthen (response_json response) (\<lambda>insights_data.
        andthen (results_entities insights_data) (\<lambda>es.
          case es of
            None \<Rightarrow> Inr PNone
          | Some v \<Rightarrow> andthen (py_len v) (\<lambda>l. if 0 < l then py_first v else Inr PNone)))
      else Inr PNone)"

text \<open>One round of the loop, lines 169 to 232: the entity appended for \<open>result\<close>.\<close>

definition entity_for :: "config \<Rightarrow> upstream \<Rightarrow> string \<Rightarrow> string \<Rightarrow> pyval \<Rightarrow> pyval io" where
  "entity_for cfg up query entity_type result =
     io_bind (io_lift (py_get result ''entity_id'' PNone)) (\<lambda>entity_id.
     io_bind (if truthy entity_id then
                io_try
                  (io_bind (requests_get up (detail_request cfg entity_type entity_id))
                     (\<lambda>insights_response. io_lift (first_detail insights_response)))
                  (\<lambda>e. io_return PNone)
              else io_return PNone) (\<lambda>full_details.
     io_lift (normalize_entity (if truthy full_details then full_details else result)
                query entity_type)))"

fun entity_loop ::
  "config \<Rightarrow> upstream \<Rightarrow> string \<Rightarrow> string \<Rightarrow> pyval list \<Rightarrow> pyval list \<Rightarrow> pyval list io" where
  "entity_loop cfg up query entity_type [] entities n = (Inr entities, n)"
| "entity_loop cfg up query entity_type (result # rest) entities n =
     (case entity_for cfg up query entity_type result n of
        (Inl e, n') \<Rightarrow> (Inl e, n')
      | (Inr entity, n') \<Rightarrow> entity_loop cfg up query entity_type rest (entities @ [entity]) n')"

text \<open>
  The items \<^verbatim>\<open>for result in v[:5]\<close> walks through. Slicing a dict raises (a \<^verbatim>\<open>TypeError\<close>
  up to CPython 3.11, a \<^verbatim>\<open>KeyError\<close> after).
\<close>

fun first_five :: "pyval \<Rightarrow> py_exc + pyval list" where
  "first_five (PList xs) = Inr (take 5 xs)"
| "first_five (PStr s) = Inr (map (\<lambda>c. PStr [c]) (take 5 s))"
| "first_five v = Inl TypeError"

text \<open>Lines 157 to 233, the direct search: the value returned from inside it, if any.\<close>

definition direct_search ::
  "config \<Rightarrow> upstream \<Rightarrow> string \<Rightarrow> string \<Rightarrow> pyval option io" where
  "direct_search cfg up query entity_type =
     io_bind (requests_get up (search_request cfg (PStr query) entity_type)) (\<lambda>response.
       if ok response then
         io_bind (io_lift (response_json response)) (\<lambda>data.
         io_bind (io_lift (has_results data)) (\<lambda>some.
           if some then
             io_bind (io_lift (andthen (py_item data ''results'') first_five)) (\<lambda>results.
             io_bind (entity_loop cfg up query entity_type results []) (\<lambda>entities.
             io_return (Some (PDict [(''results'', PList entities)]))))
           else io_return None))
       else io_return None)"

text \<open>The body of the outer \<^verbatim>\<open>try\<close> of \<^verbatim>\<open>search_entities\<close>, lines 132 to 238.\<close>

definition search_entities_body ::
  "config \<Rightarrow> upstream \<Rightarrow> string \<Rightarrow> string \<Rightarrow> pyval io" where
  "search_entities_body cfg up query entity_type =
     io_bind (fetch_entity_id cfg up (PStr query) entity_type) (\<lambda>entity_id.
     io_bind (if truthy entity_id then
                io_bind (requests_get up (detail_request cfg entity_type entity_id))
                  (\<lambda>response. io_lift (found_entities response))
              else io_return None) (\<lambda>found.
       case found of
         Some es \<Rightarrow> io_return (PDict [(''results'', es)])
       | None \<Rightarrow>
           io_bind (io_try (direct_search cfg up query entity_type) (\<lambda>e. io_return None))
             (\<lambda>r. case r of
                     Some v \<Rightarrow> io_return v
                   | None \<Rightarrow> io_return (PDict [(''results'', PList [])]))))"

datatype http_exception = HTTPException (status_code: nat) (detail: string)

text \<open>
  \<^verbatim>\<open>search_entities(search_input)\<close>. \<open>str_exc\<close> is Python's \<^verbatim>\<open>str\<close> on an exception.
\<close>

definition search_entities ::
  "config \<Rightarrow> upstream \<Rightarrow> (py_exc \<Rightarrow> string) \<Rightarrow> string \<Rightarrow> string \<Rightarrow> http_exception + pyval" where
  "search_entities cfg up str_exc query entity_type =
     (case fst (search_entities_body cfg up query entity_type 0) of
        Inl e \<Rightarrow> Inl (HTTPException 500 (''Search failed: '' @ str_exc e))
      | Inr v \<Rightarrow> Inr v)"

section \<open>The store (\<^verbatim>\<open>database.py\<close>)\<close>

text \<open>
  The three tables (\<^verbatim>\<open>users\<close>, \<^verbatim>\<open>user_preferences\<close>, \<^verbatim>\<open>saved_items\<close>), each a list of rows in the order the store returns them:
  \<^verbatim>\<open>query(...).filter(...).first()\<close> is \<open>find\<close>, \<^verbatim>\<open>.all()\<close> is \<open>filter\<close>. The timestamps
  the server fills in other than \<^verbatim>\<open>saved_at\<close> are left out; no handler reads them. The
  preference columns hold whatever \<^verbatim>\<open>save_preferences\<close> wrote, null included.
  The one failure of the store that is modelled is the refusal of a value at the commit
  of \<^verbatim>\<open>save_preferences\<close>, whose body is untyped; otherwise the handlers are followed
  on a store that answers.
\<close>

record User =
  u_id :: int
  u_email :: string
  u_username :: string
  u_hashed_password :: string

record UserPreference =
  p_id :: int
  p_user_id :: int
  p_movie_name :: pyval
  p_book_name :: pyval
  p_place_name :: pyval
  p_age :: pyval
  p_gender :: pyval

record SavedItem =
  s_id :: int
  s_user_id :: int
  s_item_id :: string
  s_item_name :: string
  s_item_type :: string
  s_item_image :: string
  s_item_description :: string
  s_favorited :: bool
  s_saved_at :: nat

record db =
  t_users :: "User list"
  t_user_preferences :: "UserPreference list"
  t_saved_items :: "SavedItem list"

text \<open>The primary key the store gives a new row.\<close>

definition next_id :: "int list \<Rightarrow> int" where
  "next_id ids = fold max ids 0 + 1"

section \<open>\<^verbatim>\<open>get_recommendations\<close>\<close>

definition no_api_key_message :: string where
  "no_api_key_message = ''API key not configured. Please set QLOO_API_KEY in your .env file.''"

definition no_preferences_message :: string where
  "no_preferences_message = ''No preferences found. Please set your preferences first.''"

definition empty_recommendations :: "string \<Rightarrow> pyval" where
  "empty_recommendations message =
     PDict [(''book_recs'', PList []), (''popular_books'', PList []),
            (''movie_recs'', PList []), (''tv_show_recs'', PList []),
            (''message'', PStr message)]"

text \<open>Lines 302 to 333.\<close>

definition recommend ::
  "config \<Rightarrow> upstream \<Rightarrow> pyval list \<Rightarrow> pyval \<Rightarrow> pyval \<Rightarrow> pyval io" where
  "recommend cfg up entity_ids age gender =
     (if entity_ids = [] then
        (if \<not> truthy (QLOO_API_KEY cfg) then io_return (empty_recommendations no_api_key_message)
         else io_return (empty_recommendations no_preferences_message))
      else
        io_bind (get_insights cfg up entity_ids age gender ''book'') (\<lambda>book_recs.
        io_bind (get_popular_books cfg up entity_ids age gender) (\<lambda>popular_books.
        io_bind (get_insights cfg up entity_ids age gender ''movie'') (\<lambda>movie_recs.
        io_bind (get_insights cfg up entity_ids age gender ''tv_show'') (\<lambda>tv_show_recs.
        io_return (PDict [(''book_recs'', book_recs), (''popular_books'', popular_books),
                          (''movie_recs'', movie_recs), (''tv_show_recs'', tv_show_recs)]))))))"

record PreferenceInput =
  book_name :: pyval
  movie_name :: pyval
  place_name :: pyval
  age :: pyval
  gender :: pyval

text \<open>
  \<^verbatim>\<open>get_current_user_optional\<close>, on the outcome of \<^verbatim>\<open>get_current_user()\<close> (module
  \<^verbatim>\<open>app.auth\<close>): the user, a dict with the account's \<^verbatim>\<open>id\<close>, or \<open>PNone\<close>.
\<close>

definition get_current_user_optional :: "py_exc + pyval \<Rightarrow> pyval" where
  "get_current_user_optional outcome = (case outcome of Inl e \<Rightarrow> PNone | Inr user \<Rightarrow> user)"

text \<open>\<^verbatim>\<open>d.get(k)\<close> on a dict the handler built itself.\<close>

definition dict_get :: "(string \<times> pyval) list \<Rightarrow> string \<Rightarrow> pyval" where
  "dict_get d k = (case map_of d k of None \<Rightarrow> PNone | Some v \<Rightarrow> v)"

text \<open>
  Lines 245 to 271: \<^verbatim>\<open>user_preferences\<close> and \<^verbatim>\<open>favorite_entities\<close>. A row belongs to
  the user when its \<^verbatim>\<open>user_id\<close> is the integer \<^verbatim>\<open>current_user["id"]\<close>.
\<close>

definition stored_preferences :: "db \<Rightarrow> pyval \<Rightarrow> (string \<times> pyval) list" where
  "stored_preferences d uid =
     (case find (\<lambda>r. PInt (p_user_id r) = uid) (t_user_preferences d) of
        None \<Rightarrow> []
      | Some user_pref \<Rightarrow>
          [(''book_name'', p_book_name user_pref),
           (''movie_name'', p_movie_name user_pref),
           (''place_name'', p_place_name user_pref),
           (''age'', p_age user_pref),
           (''gender'', p_gender user_pref)])"

definition favorites_of :: "db \<Rightarrow> pyval \<Rightarrow> pyval list" where
  "favorites_of d uid =
     map (\<lambda>item. PStr (s_item_id item))
       (filter (\<lambda>item. s_item_id item \<noteq> [])
          (filter (\<lambda>item. PInt (s_user_id item) = uid \<and> s_favorited item) (t_saved_items d)))"

definition load_user ::
  "db \<Rightarrow> pyval \<Rightarrow> py_exc + ((string \<times> pyval) list \<times> pyval list)" where
  "load_user d current_user =
     (if truthy current_user then
        andthen (py_item current_user ''id'') (\<lambda>uid.
          Inr (stored_preferences d uid, favorites_of d uid))
      else Inr ([], []))"

text \<open>Lines 274 to 278; the record holds the five resolved values.\<close>

definition effective_preferences ::
  "PreferenceInput \<Rightarrow> (string \<times> pyval) list \<Rightarrow> PreferenceInput" where
  "effective_preferences preference user_preferences =
     \<lparr> book_name = py_or (book_name preference) (dict_get user_preferences ''book_name''),
       movie_name = py_or (movie_name preference) (dict_get user_preferences ''movie_name''),
       place_name = py_or (place_name preference) (dict_get user_preferences ''place_name''),
       age = py_or (age preference) (dict_get user_preferences ''age''),
       gender = py_or (gender preference) (dict_get user_preferences ''gender'') \<rparr>"

text \<open>Lines 283 to 286, and the same for the movie and the place.\<close>

definition add_signal ::
  "config \<Rightarrow> upstream \<Rightarrow> pyval \<Rightarrow> string \<Rightarrow> pyval list \<Rightarrow> pyval list io" where
  "add_signal cfg up name entity_type entity_ids =
     (if truthy name then
        io_bind (fetch_entity_id cfg up name entity_type) (\<lambda>found.
          io_return (if truthy found then entity_ids @ [found] else entity_ids))
      else io_return entity_ids)"

text \<open>Lines 280 to 300: \<^verbatim>\<open>entity_ids\<close>, the signal set.\<close>

definition signal_set ::
  "config \<Rightarrow> upstream \<Rightarrow> PreferenceInput \<Rightarrow> pyval list \<Rightarrow> pyval list io" where
  "signal_set cfg up eff favorite_entities =
     io_bind (add_signal cfg up (book_name eff) ''book'' []) (\<lambda>ids1.
     io_bind (add_signal cfg up (movie_name eff) ''movie'' ids1) (\<lambda>ids2.
     io_bind (add_signal cfg up (place_name eff) ''place'' ids2) (\<lambda>ids3.
     io_return (if favorite_entities \<noteq> [] then ids3 @ favorite_entities else ids3))))"

text \<open>
  \<^verbatim>\<open>get_recommendations(preference, current_user)\<close>: the response, or the exception
  that leaves the handler.
\<close>

definition get_recommendations ::
  "config \<Rightarrow> upstream \<Rightarrow> db \<Rightarrow> PreferenceInput \<Rightarrow> pyval \<Rightarrow> py_exc + pyval" where
  "get_recommendations cfg up d preference current_user =
     andthen (load_user d current_user) (\<lambda>(user_preferences, favorite_entities).
       let eff = effective_preferences preference user_preferences in
       fst (io_bind (signal_set cfg up eff favorite_entities)
              (\<lambda>entity_ids. recommend cfg up entity_ids (age eff) (gender eff)) 0))"

section \<open>\<^verbatim>\<open>login\<close> and \<^verbatim>\<open>save_preferences\<close> (\<^verbatim>\<open>auth_routes.py\<close>)\<close>

record UserLogin =
  login_username :: string
  login_password :: string

text \<open>
  \<^verbatim>\<open>login(user_data, db)\<close>. The password check and the token codec are the functions of
  module \<^verbatim>\<open>app.auth\<close>: \<open>verify_password plain hashed\<close>, and \<open>create_access_token\<close> on
  the subject (the lifetime is a constant of that module).
\<close>

definition login ::
  "(string \<Rightarrow> string \<Rightarrow> bool) \<Rightarrow> (string \<Rightarrow> string) \<Rightarrow> db \<Rightarrow> UserLogin \<Rightarrow> http_exception + pyval" where
  "login verify_password create_access_token d user_data =
     (case find (\<lambda>u. u_username u = login_username user_data) (t_users d) of
        None \<Rightarrow> Inl (HTTPException 401 ''Incorrect username or password'')
      | Some user \<Rightarrow>
          if \<not> verify_password (login_password user_data) (u_hashed_password user) then
            Inl (HTTPException 401 ''Incorrect username or password'')
          else
            Inr (PDict [(''access_token'', PStr (create_access_token (u_username user))),
                        (''token_type'', PStr ''bearer'')]))"

text \<open>The first row that satisfies \<open>P\<close>, changed by \<open>f\<close>: the row \<open>find P\<close> returned.\<close>

fun update_first :: "('a \<Rightarrow> bool) \<Rightarrow> ('a \<Rightarrow> 'a) \<Rightarrow> 'a list \<Rightarrow> 'a list" where
  "update_first P f [] = []"
| "update_first P f (x # xs) = (if P x then f x # xs else x # update_first P f xs)"

text \<open>The five keys of the request body, in the order the handler assigns them.\<close>

definition preference_keys :: "string list" where
  "preference_keys = [''movie_name'', ''book_name'', ''place_name'', ''age'', ''gender'']"

text \<open>
  What the commit writes. The body is an untyped dict, so a value may be of any type;
  \<open>bind\<close> is the store taking one value into a \<^verbatim>\<open>String\<close> column: it raises, or gives
  the value the column then holds. The first value the store refuses ends the commit.
\<close>

definition bound_preferences ::
  "(pyval \<Rightarrow> py_exc + pyval) \<Rightarrow> (string \<times> pyval) list \<Rightarrow> py_exc + (string \<times> pyval) list" where
  "bound_preferences bind preferences =
     entries (\<lambda>k. bind (dict_get preferences k)) preference_keys"

text \<open>
  \<^verbatim>\<open>save_preferences(preferences, credentials, db)\<close>: the response and the store
  afterwards. \<open>verify_token\<close> (module \<^verbatim>\<open>app.auth\<close>) gives the username of a valid token.
  A commit that raises is rolled back and answered with status 500 (lines 181 to 186);
  the two 401 answers pass through the handler (lines 179 and 180).
\<close>

definition save_preferences ::
  "(string \<Rightarrow> string option) \<Rightarrow> (pyval \<Rightarrow> py_exc + pyval) \<Rightarrow> (py_exc \<Rightarrow> string) \<Rightarrow> db \<Rightarrow>
     (string \<times> pyval) list \<Rightarrow> string \<Rightarrow> (http_exception + pyval) \<times> db" where
  "save_preferences verify_token bind str_exc d preferences token =
     (case verify_token token of
        None \<Rightarrow> (Inl (HTTPException 401 ''Could not validate credentials''), d)
      | Some username \<Rightarrow>
          (case find (\<lambda>u. u_username u = username) (t_users d) of
             None \<Rightarrow> (Inl (HTTPException 401 ''User not found''), d)
           | Some user \<Rightarrow>
               (case bound_preferences bind preferences of
                  Inl e \<Rightarrow>
                    (Inl (HTTPException 500 (''Failed to save preferences: '' @ str_exc e)), d)
                | Inr written \<Rightarrow>
                    (Inr (PDict [(''message'', PStr ''Preferences saved successfully'')]),
                     (case find (\<lambda>r. p_user_id r = u_id user) (t_user_preferences d) of
                        Some existing_pref \<Rightarrow>
                          d\<lparr>t_user_preferences :=
                              update_first (\<lambda>r. p_user_id r = u_id user)
                                (\<lambda>r. r\<lparr>p_movie_name := dict_get written ''movie_name'',
                                        p_book_name := dict_get written ''book_name'',
                                        p_place_name := dict_get written ''place_name'',
                                        p_age := dict_get written ''age'',
                                        p_gender := dict_get written ''gender''\<rparr>)
                                (t_user_preferences d)\<rparr>
                      | None \<Rightarrow>
                          d\<lparr>t_user_preferences := t_user_preferences d @
                              [\<lparr>p_id = next_id (map p_id (t_user_preferences d)),
                                p_user_id = u_id user,
                                p_movie_name = dict_get written ''movie_name'',
                                p_book_name = dict_get written ''book_name'',
                                p_place_name = dict_get written ''place_name'',
                                p_age = dict_get written ''age'',
                                p_gender = dict_get written ''gender''\<rparr>]\<rparr>)))))"

section \<open>\<^verbatim>\<open>save_item\<close> (\<^verbatim>\<open>saved_items_routes.py\<close>)\<close>

record SavedItemCreate =
  item_id :: string
  item_name :: string
  item_type :: string
  item_image :: string
  item_description :: string
  favorited :: bool

record SavedItemResponse =
  r_id :: int
  r_item_id :: string
  r_item_name :: string
  r_item_type :: string
  r_item_image :: string
  r_item_description :: string
  r_favorited :: bool
  r_saved_at :: nat

definition response_of :: "SavedItem \<Rightarrow> SavedItemResponse" where
  "response_of row =
     \<lparr>r_id = s_id row, r_item_id = s_item_id row, r_item_name = s_item_name row,
      r_item_type = s_item_type row, r_item_image = s_item_image row,
      r_item_description = s_item_description row, r_favorited = s_favorited row,
      r_saved_at = s_saved_at row\<rparr>"

text \<open>The rows of one account for one external id.\<close>

definition rows_for :: "db \<Rightarrow> int \<Rightarrow> string \<Rightarrow> SavedItem list" where
  "rows_for d uid iid = filter (\<lambda>s. s_user_id s = uid \<and> s_item_id s = iid) (t_saved_items d)"

text \<open>
  \<^verbatim>\<open>save_item(item, credentials, db)\<close>: the response and the store after the commit.
  \<open>now\<close> is the time the server stamps on a new row.
\<close>

definition save_item ::
  "(string \<Rightarrow> string option) \<Rightarrow> nat \<Rightarrow> db \<Rightarrow> SavedItemCreate \<Rightarrow> string \<Rightarrow>
     (http_exception + SavedItemResponse) \<times> db" where
  "save_item verify_token now d item token =
     (if item_id item = [] \<or> item_name item = [] then
        (Inl (HTTPException 400 ''item_id and item_name are required''), d)
      else
        (case verify_token token of
           None \<Rightarrow> (Inl (HTTPException 401 ''Could not validate credentials''), d)
         | Some username \<Rightarrow>
             (case find (\<lambda>u. u_username u = username) (t_users d) of
                None \<Rightarrow> (Inl (HTTPException 401 ''User not found''), d)
              | Some user \<Rightarrow>
                  (case find (\<lambda>s. s_user_id s = u_id user \<and> s_item_id s = item_id item)
                          (t_saved_items d) of
                     Some existing_item \<Rightarrow>
                       if s_favorited existing_item \<noteq> favorited item then
                         (Inr (response_of (existing_item\<lparr>s_favorited := favorited item\<rparr>)),
                          d\<lparr>t_saved_items :=
                              update_first
                                (\<lambda>s. s_user_id s = u_id user \<and> s_item_id s = item_id item)
                                (\<lambda>s. s\<lparr>s_favorited := favorited item\<rparr>)
                                (t_saved_items d)\<rparr>)
                       else (Inr (response_of existing_item), d)
                   | None \<Rightarrow>
                       (let saved_item =
                              \<lparr>s_id = next_id (map s_id (t_saved_items d)),
                               s_user_id = u_id user,
                               s_item_id = item_id item,
                               s_item_name = item_name item,
                               s_item_type = item_type item,
                               s_item_image = item_image item,
                               s_item_description = item_description item,
                               s_favorited = favorited item,
                               s_saved_at = now\<rparr>
                        in (Inr (response_of saved_item),
                            d\<lparr>t_saved_items := t_saved_items d @ [saved_item]\<rparr>))))))"

text \<open>No account holds two rows for the same external id.\<close>

definition unique_saved :: "db \<Rightarrow> bool" where
  "unique_saved d =
     distinct (map (\<lambda>s. (s_user_id s, s_item_id s)) (t_saved_items d))"

section \<open>\<^verbatim>\<open>convert_natural_language\<close> (\<^verbatim>\<open>gemini_routes.py\<close>)\<close>

record GeminiQuery =
  gq_query :: string
  gq_entity_type :: string

record GeminiResponse =
  g_success :: bool
  g_entity_name :: pyval
  g_entity_type :: pyval
  g_confidence :: pyval
  g_explanation :: pyval

text \<open>
  A Python string as the list of its code points; the text of a generated response is
  one, and may hold any character.
\<close>

type_synonym unicode = "nat list"

definition ascii :: "string \<Rightarrow> unicode" where
  "ascii s = map of_char s"

text \<open>
  The generative call. The prompt is a fixed template around the two fields of the
  query, so the call is a function of the query: it raises, or returns a response, given
  by what reading its \<^verbatim>\<open>text\<close> does (raise, or give a string).
\<close>

datatype generation = CallRaises py_exc | Generated "py_exc + unicode"

text \<open>
  \<^verbatim>\<open>str.strip()\<close>. The characters it removes are those Python counts as white space:
  the ASCII ones (with the four separators \<open>0x1C\<close> to \<open>0x1F\<close>), \<open>U+0085\<close>, \<open>U+00A0\<close>,
  \<open>U+1680\<close>, \<open>U+2000\<close> to \<open>U+200A\<close>, \<open>U+2028\<close>, \<open>U+2029\<close>, \<open>U+202F\<close>, \<open>U+205F\<close> and
  \<open>U+3000\<close>.
\<close>

definition is_space :: "nat \<Rightarrow> bool" where
  "is_space c =
     ((9 \<le> c \<and> c \<le> 13) \<or> (28 \<le> c \<and> c \<le> 32) \<or> c = 133 \<or> c = 160 \<or> c = 5760 \<or>
      (8192 \<le> c \<and> c \<le> 8202) \<or> c = 8232 \<or> c = 8233 \<or> c = 8239 \<or> c = 8287 \<or>
      c = 12288)"

definition strip :: "unicode \<Rightarrow> unicode" where
  "strip s = rev (dropWhile is_space (rev (dropWhile is_space s)))"

text \<open>
  \<^verbatim>\<open>str.lower()\<close>, on the letters of ASCII; it is applied to the message of an
  exception.
\<close>

definition lower :: "string \<Rightarrow> string" where
  "lower s =
     map (\<lambda>c. if 65 \<le> (of_char c :: nat) \<and> (of_char c :: nat) \<le> 90
               then char_of (of_char c + (32 :: nat)) else c) s"

text \<open>Lines 90 to 98: the text handed to \<^verbatim>\<open>json.loads\<close>.\<close>

definition response_text :: "unicode \<Rightarrow> unicode" where
  "response_text text =
     (let t0 = strip text;
          t1 = (if prefix (ascii ''```json'') t0 then drop 7 t0 else t0);
          t2 = (if suffix (ascii ''```'') t1 then take (length t1 - 3) t1 else t1)
      in strip t2)"

text \<open>
  The value of the Python float \<^verbatim>\<open>0.3\<close>, and \<^verbatim>\<open>confidence < 0.3\<close>: Python compares a
  number with a float by their exact values, and nothing is below a NaN.
\<close>

definition threshold :: rat where
  "threshold = 5404319552844595 / 18014398509481984"

fun below_threshold :: "pyval \<Rightarrow> py_exc + bool" where
  "below_threshold (PInt i) = Inr (of_int i < threshold)"
| "below_threshold (PBool b) = Inr (of_int (if b then 1 else 0) < threshold)"
| "below_threshold (PFloat (Finite r)) = Inr (r < threshold)"
| "below_threshold (PFloat NegInf) = Inr True"
| "below_threshold (PFloat PosInf) = Inr False"
| "below_threshold (PFloat NaN) = Inr False"
| "below_threshold v = Inl TypeError"

definition failure :: "string \<Rightarrow> GeminiResponse" where
  "failure why =
     \<lparr>g_success = False, g_entity_name = PNone, g_entity_type = PNone,
      g_confidence = PNone, g_explanation = PStr why\<rparr>"

text \<open>
  Lines 100 to 124, on the decoded \<open>result\<close>. \<open>str_val\<close> is Python's formatting of a value
  inside an f-string. \<open>validate\<close> is the constructor of the response model on the
  success path, that is the validation the model class (pydantic) applies to the four
  values taken from the upstream: it raises, or gives the response with the fields as
  the class keeps them. The two failure responses are built from a boolean and a string
  constant, which the class accepts as they are.
\<close>

definition checked_result ::
  "(pyval \<Rightarrow> string) \<Rightarrow> (GeminiResponse \<Rightarrow> py_exc + GeminiResponse) \<Rightarrow> pyval \<Rightarrow>
     py_exc + GeminiResponse" where
  "checked_result str_val validate result =
     andthen (py_get result ''entity_name'' PNone) (\<lambda>name.
       if \<not> truthy name then
         Inr (failure ''Could not extract a valid entity name from the response'')
       else
         andthen (py_get result ''entity_type'' PNone) (\<lambda>typ.
           if \<not> truthy typ then
             Inr (failure ''Could not extract a valid entity name from the response'')
           else
             andthen (py_get result ''confidence'' (PInt 0)) (\<lambda>confidence.
             andthen (below_threshold confidence) (\<lambda>low.
               if low then
                 Inr (failure (''Low confidence ('' @ str_val confidence @
                                '') in the suggested entity''))
               else
                 andthen (py_item result ''entity_name'') (\<lambda>n.
                 andthen (py_item result ''entity_type'') (\<lambda>t.
                 andthen (py_get result ''explanation'' (PStr [])) (\<lambda>ex.
                 validate \<lparr>g_success = True, g_entity_name = n, g_entity_type = t,
                           g_confidence = confidence, g_explanation = ex\<rparr>)))))))"

text \<open>
  The inner \<^verbatim>\<open>try\<close>, lines 88 to 130; \<open>json_loads\<close> is \<^verbatim>\<open>json.loads\<close>, \<open>None\<close> where it
  raises \<^verbatim>\<open>JSONDecodeError\<close>. Any other exception leaves the inner \<^verbatim>\<open>try\<close>.
\<close>

definition parse_response ::
  "(unicode \<Rightarrow> pyval option) \<Rightarrow> (pyval \<Rightarrow> string) \<Rightarrow>
     (GeminiResponse \<Rightarrow> py_exc + GeminiResponse) \<Rightarrow> py_exc + unicode \<Rightarrow>
     py_exc + GeminiResponse" where
  "parse_response json_loads str_val validate response_text_attr =
     (case andthen response_text_attr (\<lambda>text.
             andthen (case json_loads (response_text text) of
                        None \<Rightarrow> Inl JSONDecodeError
                      | Some result \<Rightarrow> Inr result)
               (checked_result str_val validate)) of
        Inl JSONDecodeError \<Rightarrow> Inr (failure ''Failed to parse Gemini response'')
      | r \<Rightarrow> r)"

text \<open>Lines 132 to 149: the handler of the outer \<^verbatim>\<open>try\<close>.\<close>

definition error_response :: "string \<Rightarrow> http_exception" where
  "error_response error_message =
     (if sublist ''429'' error_message \<or> sublist ''quota'' (lower error_message) then
        HTTPException 429
          ''Gemini API rate limit exceeded. Please try again later or use exact search mode.''
      else if sublist ''404'' error_message \<and> sublist ''model'' (lower error_message) then
        HTTPException 503 ''Gemini model not available. Please check API configuration.''
      else
        HTTPException 500 (''Failed to process natural language query: '' @ error_message))"

text \<open>
  \<^verbatim>\<open>convert_natural_language(query)\<close>. \<open>model\<close> tells whether the module could build
  its client; \<open>generate_content\<close> is the generative call.
\<close>

definition convert_natural_language ::
  "bool \<Rightarrow> (GeminiQuery \<Rightarrow> generation) \<Rightarrow> (unicode \<Rightarrow> pyval option) \<Rightarrow> (pyval \<Rightarrow> string) \<Rightarrow>
     (GeminiResponse \<Rightarrow> py_exc + GeminiResponse) \<Rightarrow> (py_exc \<Rightarrow> string) \<Rightarrow> GeminiQuery \<Rightarrow>
     http_exception + GeminiResponse" where
  "convert_natural_language model generate_content json_loads str_val validate str_exc query =
     (if \<not> model then
        Inl (HTTPException 503
               ''Gemini model not available - check API key and model configuration'')
      else
        (case generate_content query of
           CallRaises e \<Rightarrow> Inl (error_response (str_exc e))
         | Generated response \<Rightarrow>
             (case parse_response json_loads str_val validate response of
                Inl e \<Rightarrow> Inl (error_response (str_exc e))
              | Inr r \<Rightarrow> Inr r)))"

section \<open>Properties of the entity resolver\<close>

lemma andthen_Inr [simp]: "andthen (Inr x) f = f x"
  by (simp add: andthen_def)

lemma andthen_Inl [simp]: "andthen (Inl e) f = Inl e"
  by (simp add: andthen_def)

lemma key_in_dict: "(k \<in> fst ` set kvs) = (map_of kvs k \<noteq> None)"
  by (simp add: map_of_eq_None_iff)

lemma entity_id_of_dict:
  "entity_id_of (Response True (Some (PDict kvs))) =
     (case map_of kvs ''results'' of
        None \<Rightarrow> Inr PNone
      | Some r \<Rightarrow> andthen (py_len r) (\<lambda>l. if 0 < l then andthen (py_first r) (\<lambda>x. py_get x ''entity_id'' PNone) else Inr PNone))"
proof (cases "map_of kvs ''results''")
  case None
  then show ?thesis
    by (simp add: entity_id_of_def response_json_def has_results_def is_id_array_def key_in_dict)
next
  case (Some r)
  then show ?thesis
    by (cases "py_len r")
       (simp_all add: entity_id_of_def response_json_def has_results_def is_id_array_def key_in_dict)
qed

lemma entity_id_of_list:
  "entity_id_of (Response True (Some (PList xs))) =
     (if PStr ''results'' \<in> set xs then Inl TypeError
      else case xs of [] \<Rightarrow> Inr PNone
         | x # _ \<Rightarrow> andthen (py_in ''entity_id'' x) (\<lambda>b. if b then py_item x ''entity_id'' else Inr PNone))"
  by (cases xs)
     (simp_all add: entity_id_of_def response_json_def has_results_def is_id_array_def cong: if_cong)

lemma entity_id_of_other:
  "\<not> is_list data \<Longrightarrow> (\<forall>kvs. data \<noteq> PDict kvs) \<Longrightarrow>
   entity_id_of (Response True (Some data)) \<noteq> Inr v \<or> v = PNone"
  by (cases data)
     (simp_all add: entity_id_of_def response_json_def has_results_def is_id_array_def)

lemma py_first_get:
  assumes a: "andthen (py_first r) (\<lambda>x. py_get x ''entity_id'' PNone) = Inr v" and b: "v \<noteq> PNone"
  shows "\<exists>d rs. r = PList (PDict d # rs) \<and> map_of d ''entity_id'' = Some v"
proof (cases r)
  case (PList xs)
  show ?thesis
  proof (cases xs)
    case Nil with PList a show ?thesis by simp
  next
    case (Cons x rs)
    with PList a b show ?thesis by (cases x) (auto split: option.splits)
  qed
next
  case (PStr s)
  with a show ?thesis by (cases s) simp_all
qed (use a in simp_all)

lemma entity_id_of_first:
  assumes "entity_id_of (Response True (Some data)) = Inr v" and "v \<noteq> PNone"
  shows "first_entity_id data = Some v"
proof (cases data)
  case (PDict kvs)
  show ?thesis
  proof (cases "map_of kvs ''results''")
    case None
    with assms PDict show ?thesis by (simp add: entity_id_of_dict)
  next
    case (Some r)
    with assms PDict have h: "andthen (py_len r) (\<lambda>l. if 0 < l then andthen (py_first r) (\<lambda>x. py_get x ''entity_id'' PNone) else Inr PNone) = Inr v"
      by (simp add: entity_id_of_dict)
    then obtain l where l: "py_len r = Inr l" by (cases "py_len r") simp_all
    with h assms(2) have "andthen (py_first r) (\<lambda>x. py_get x ''entity_id'' PNone) = Inr v"
      by (simp split: if_splits)
    from py_first_get[OF this assms(2)] obtain d rs where "r = PList (PDict d # rs)" "map_of d ''entity_id'' = Some v"
      by blast
    with PDict Some show ?thesis by simp
  qed
next
  case (PList xs)
  with assms have h: "(if PStr ''results'' \<in> set xs then Inl TypeError
      else case xs of [] \<Rightarrow> Inr PNone
         | x # _ \<Rightarrow> andthen (py_in ''entity_id'' x) (\<lambda>b. if b then py_item x ''entity_id'' else Inr PNone)) = Inr v"
    by (simp add: entity_id_of_list)
  show ?thesis
  proof (cases xs)
    case Nil with h assms(2) show ?thesis by (simp split: if_splits)
  next
    case (Cons x rs)
    with h assms(2) PList show ?thesis
      by (cases x) (auto split: if_splits option.splits)
  qed
next
  case PNone with assms show ?thesis using entity_id_of_other[of data v] by simp
next
  case (PBool b) with assms show ?thesis using entity_id_of_other[of data v] by simp
next
  case (PInt i) with assms show ?thesis using entity_id_of_other[of data v] by simp
next
  case (PFloat f) with assms show ?thesis using entity_id_of_other[of data v] by simp
next
  case (PStr s) with assms show ?thesis using entity_id_of_other[of data v] by simp
qed

lemma entity_id_of_no_match:
  assumes "first_entity_id data = None"
  shows "entity_id_of (Response True (Some data)) = Inr PNone \<or> (\<exists>e. entity_id_of (Response True (Some data)) = Inl e)"
proof (cases "entity_id_of (Response True (Some data))")
  case (Inl e) then show ?thesis by simp
next
  case (Inr v)
  with entity_id_of_first[OF Inr] assms have "v = PNone" by auto
  with Inr show ?thesis by simp
qed

lemma fetch_entity_id_value:
  "fetch_entity_id cfg up name t n =
     (if \<not> truthy (QLOO_API_KEY cfg) then (Inr PNone, n)
      else (case up n (search_request cfg name t) of
              Raises e \<Rightarrow> Inr PNone
            | Returns r \<Rightarrow> (case entity_id_of r of Inl e \<Rightarrow> Inr PNone | Inr v \<Rightarrow> Inr v), Suc n))"
  by (simp add: fetch_entity_id_def io_try_def io_bind_def io_return_def io_lift_def requests_get_def
           split: http_outcome.splits sum.splits)

text \<open>
  Claim C8. For every name and category, \<^verbatim>\<open>fetch_entity_id\<close> returns (it never raises),
  and what it returns is \<open>None\<close> when no API key is configured, when the call to the
  upstream raises, when the upstream answers with a status that is not ok, when the body
  cannot be decoded, and when the decoded response has no first entry with an entity id.
\<close>

theorem fetch_entity_id_never_raises:
  "(\<exists>v. fst (fetch_entity_id cfg up name t n) = Inr v) \<and>
   (\<not> truthy (QLOO_API_KEY cfg) \<longrightarrow> fst (fetch_entity_id cfg up name t n) = Inr PNone) \<and>
   (up n (search_request cfg name t) = Raises e \<longrightarrow>
      fst (fetch_entity_id cfg up name t n) = Inr PNone) \<and>
   (up n (search_request cfg name t) = Returns (Response False b) \<longrightarrow>
      fst (fetch_entity_id cfg up name t n) = Inr PNone) \<and>
   (up n (search_request cfg name t) = Returns (Response True None) \<longrightarrow>
      fst (fetch_entity_id cfg up name t n) = Inr PNone) \<and>
   (up n (search_request cfg name t) = Returns (Response True (Some data)) \<and>
    first_entity_id data = None \<longrightarrow>
      fst (fetch_entity_id cfg up name t n) = Inr PNone)"
proof -
  have total: "\<exists>v. fst (fetch_entity_id cfg up name t n) = Inr v"
    by (simp add: fetch_entity_id_value split: http_outcome.splits sum.splits)
  have nokey: "\<not> truthy (QLOO_API_KEY cfg) \<Longrightarrow> fst (fetch_entity_id cfg up name t n) = Inr PNone"
    by (simp add: fetch_entity_id_value)
  have raises: "up n (search_request cfg name t) = Raises e \<Longrightarrow>
      fst (fetch_entity_id cfg up name t n) = Inr PNone"
    by (simp add: fetch_entity_id_value)
  have notok: "up n (search_request cfg name t) = Returns (Response False b) \<Longrightarrow>
      fst (fetch_entity_id cfg up name t n) = Inr PNone"
    by (simp add: fetch_entity_id_value entity_id_of_def)
  have nojson: "up n (search_request cfg name t) = Returns (Response True None) \<Longrightarrow>
      fst (fetch_entity_id cfg up name t n) = Inr PNone"
    by (simp add: fetch_entity_id_value entity_id_of_def response_json_def)
  have nomatch: "fst (fetch_entity_id cfg up name t n) = Inr PNone"
    if "up n (search_request cfg name t) = Returns (Response True (Some data))"
      and "first_entity_id data = None"
    using that(1) entity_id_of_no_match[OF that(2)]
    by (auto simp: fetch_entity_id_value)
  from total nokey raises notok nojson nomatch show ?thesis by blast
qed

theorem fetch_entity_id_never_raises_witness:
  "fst (fetch_entity_id \<lparr>QLOO_API_BASE = ''https://q'', QLOO_API_KEY = PStr ''key''\<rparr>
          (\<lambda>n r. Raises (LibraryError ''timed out'')) (PStr ''Dune'') ''book'' 0) = Inr PNone \<and>
   fst (fetch_entity_id \<lparr>QLOO_API_BASE = ''https://q'', QLOO_API_KEY = PStr ''key''\<rparr>
          (\<lambda>n r. Returns (Response False None)) (PStr ''Dune'') ''book'' 0) = Inr PNone \<and>
   fst (fetch_entity_id \<lparr>QLOO_API_BASE = ''https://q'', QLOO_API_KEY = PStr ''key''\<rparr>
          (\<lambda>n r. Returns (Response True (Some (PDict [(''results'', PList [])]))))
          (PStr ''Dune'') ''book'' 0) = Inr PNone"
  using
    fetch_entity_id_never_raises
      [of "\<lparr>QLOO_API_BASE = ''https://q'', QLOO_API_KEY = PStr ''key''\<rparr>"
          "\<lambda>n r. Raises (LibraryError ''timed out'')" "PStr ''Dune''" "''book''" 0
          "LibraryError ''timed out''"]
    fetch_entity_id_never_raises
      [of "\<lparr>QLOO_API_BASE = ''https://q'', QLOO_API_KEY = PStr ''key''\<rparr>"
          "\<lambda>n r. Returns (Response False None)" "PStr ''Dune''" "''book''" 0 _ None]
    fetch_entity_id_never_raises
      [of "\<lparr>QLOO_API_BASE = ''https://q'', QLOO_API_KEY = PStr ''key''\<rparr>"
          "\<lambda>n r. Returns (Response True (Some (PDict [(''results'', PList [])])))"
          "PStr ''Dune''" "''book''" 0 _ _ "PDict [(''results'', PList [])]"]
  by simp

text \<open>
  Claim C6. For every name and category, a search response that is a bare array of
  objects containing \<^verbatim>\<open>entity_id\<close> and the response that wraps the same array as
  \<^verbatim>\<open>{results: [...]}\<close> resolve to the same entity id.
\<close>

theorem resolve_shapes_agree:
  assumes "\<forall>x \<in> set objs. has_entity_id x"
    and "up1 n (search_request cfg name t) = Returns (Response True (Some (PList objs)))"
    and "up2 n (search_request cfg name t) =
           Returns (Response True (Some (PDict [(''results'', PList objs)])))"
  shows "fst (fetch_entity_id cfg up1 name t n) = fst (fetch_entity_id cfg up2 name t n)"
proof -
  have "entity_id_of (Response True (Some (PList objs))) =
        entity_id_of (Response True (Some (PDict [(''results'', PList objs)])))"
  proof (cases objs)
    case Nil
    then show ?thesis by (simp add: entity_id_of_dict entity_id_of_list)
  next
    case (Cons x xs)
    with assms(1) have hx: "has_entity_id x" by simp
    then obtain r where r: "x = PDict r" "''entity_id'' \<in> fst ` set r" by (cases x) auto
    then obtain v where v: "map_of r ''entity_id'' = Some v"
      by (cases "map_of r ''entity_id''") (simp_all add: key_in_dict)
    have "\<not> has_entity_id (PStr ''results'')" by simp
    with assms(1) have "PStr ''results'' \<notin> set objs" by blast
    with Cons r v show ?thesis
      by (simp add: entity_id_of_dict entity_id_of_list)
  qed
  with assms(2,3) show ?thesis by (simp add: fetch_entity_id_value)
qed

theorem resolve_shapes_agree_witness:
  "fst (fetch_entity_id \<lparr>QLOO_API_BASE = ''https://q'', QLOO_API_KEY = PStr ''key''\<rparr>
          (\<lambda>n r. Returns (Response True (Some (PList [PDict [(''entity_id'', PStr ''E1'')]]))))
          (PStr ''Dune'') ''book'' 0) = Inr (PStr ''E1'') \<and>
   fst (fetch_entity_id \<lparr>QLOO_API_BASE = ''https://q'', QLOO_API_KEY = PStr ''key''\<rparr>
          (\<lambda>n r. Returns (Response True
             (Some (PDict [(''results'', PList [PDict [(''entity_id'', PStr ''E1'')]])]))))
          (PStr ''Dune'') ''book'' 0) = Inr (PStr ''E1'')"
  using
    resolve_shapes_agree
      [of "[PDict [(''entity_id'', PStr ''E1'')]]"
          "\<lambda>n r. Returns (Response True (Some (PList [PDict [(''entity_id'', PStr ''E1'')]])))"
          0 "\<lparr>QLOO_API_BASE = ''https://q'', QLOO_API_KEY = PStr ''key''\<rparr>"
          "PStr ''Dune''" "''book''"
          "\<lambda>n r. Returns (Response True
             (Some (PDict [(''results'', PList [PDict [(''entity_id'', PStr ''E1'')]])])))"]
  by (simp add: fetch_entity_id_value entity_id_of_dict)

section \<open>Properties of the normalizer and of \<^verbatim>\<open>search_entities\<close>\<close>

lemma absent_key:
  "set (map fst kvs) \<inter> set ks = {} \<Longrightarrow> k \<in> set ks \<Longrightarrow> map_of kvs k = None"
  by (auto simp: map_of_eq_None_iff)

text \<open>
  On a record in which none of the optional keys occurs, the normalizer returns and
  every optional attribute of the entity is null.
\<close>

lemma normalize_entity_absent_keys:
  assumes "set (map fst kvs) \<inter> set optional_keys = {}"
  shows "normalize_entity (PDict kvs) query t =
           Inr (PDict
             [(''entity_id'', dict_get kvs ''entity_id''),
              (''name'', case map_of kvs ''name'' of None \<Rightarrow> PStr query | Some v \<Rightarrow> v),
              (''type'', PStr t),
              (''image'', PNone), (''image_url'', PNone),
              (''rating'', PNone), (''rating_count'', PNone), (''author'', PNone),
              (''properties'',
                 PDict [(''short_description'', PNone), (''description'', PNone),
                        (''publication_year'', PNone), (''publication_date'', PNone),
                        (''genre'', PNone), (''page_count'', PNone), (''language'', PNone),
                        (''publisher'', PNone), (''isbn13'', PNone), (''format'', PNone),
                        (''image'', PNone)]),
              (''external'', PNone)])"
proof -
  have none: "map_of kvs k = None" if "k \<in> set optional_keys" for k
    using absent_key[OF assms that] .
  have img: "image_url_of (PDict kvs) = Inr PNone"
    by (simp add: image_url_of_def none optional_keys_def)
  have fld: "field_or_property (PDict kvs) k = Inr PNone" if "k \<in> set property_keys" for k
    using that by (simp add: field_or_property_def none optional_keys_def)
  have props: "entries (field_or_property (PDict kvs)) property_keys =
                 Inr (map (\<lambda>k. (k, PNone)) property_keys)"
    using fld by (simp add: property_keys_def)
  have plain: "entries (\<lambda>k. py_get (PDict kvs) k PNone) [''rating'', ''rating_count'', ''author'']
                 = Inr [(''rating'', PNone), (''rating_count'', PNone), (''author'', PNone)]"
    by (simp add: none optional_keys_def)
  have good: "goodreads_of (PDict kvs) = Inr PNone"
    by (simp add: goodreads_of_def none optional_keys_def)
  show ?thesis
    unfolding normalize_entity_def img props plain good
    by (simp add: dict_get_def property_keys_def)
qed

text \<open>
  Claim C7, at inputs where the normalizer does not meet it. The record has its id, its
  name and a null \<^verbatim>\<open>properties\<close> (in the second record a null \<^verbatim>\<open>external\<close>), so it has
  no optional attribute at all. The lookups of lines 214 and 229 take the null as the
  container and call \<^verbatim>\<open>.get\<close> on it, which raises \<^verbatim>\<open>AttributeError\<close>; only the image
  lookup of line 201 tests the container first. In the handler the exception ends the
  loop, and the search that found the entity answers with an empty result list.
\<close>

theorem normalize_entity_null_container_raises:
  "normalize_entity
     (PDict [(''entity_id'', PStr ''E1''), (''name'', PStr ''Dune''), (''properties'', PNone)])
     ''dune'' ''book'' = Inl AttributeError \<and>
   normalize_entity
     (PDict [(''entity_id'', PStr ''E1''), (''name'', PStr ''Dune''), (''external'', PNone)])
     ''dune'' ''book'' = Inl AttributeError \<and>
   search_entities \<lparr>QLOO_API_BASE = ''https://q'', QLOO_API_KEY = PStr ''key''\<rparr>
     (\<lambda>n r. if url r = ''https://q/search''
            then Returns (Response True
                   (Some (PDict [(''results'',
                      PList [PDict [(''entity_id'', PStr ''E1''), (''name'', PStr ''Dune''),
                                    (''properties'', PNone)]])])))
            else Returns (Response False None))
     (\<lambda>e. []) ''dune'' ''book''
   = Inr (PDict [(''results'', PList [])])"
  by (simp add: normalize_entity_def image_url_of_def field_or_property_def goodreads_of_def
        property_keys_def search_entities_def search_entities_body_def fetch_entity_id_value
        entity_id_of_dict io_bind_def io_try_def io_return_def io_lift_def requests_get_def
        search_request_def detail_request_def found_entities_def direct_search_def
        response_json_def has_results_def key_in_dict entity_for_def first_detail_def)

text \<open>
  Claim C3, at an input where the handler does not meet it. The search of the resolver
  answers with an entity id and the detail lookup that follows (lines 144 to 148) raises
  a transport error. That call is the only upstream call of the handler outside an inner
  \<^verbatim>\<open>try\<close>, so the error reaches the outer handler and the caller receives status 500.
\<close>

theorem search_entities_detail_lookup_500:
  "search_entities \<lparr>QLOO_API_BASE = ''https://q'', QLOO_API_KEY = PStr ''key''\<rparr>
     (\<lambda>n r. if n = 0
            then Returns (Response True
                   (Some (PDict [(''results'', PList [PDict [(''entity_id'', PStr ''E1'')]])])))
            else Raises (LibraryError ''connection refused''))
     (\<lambda>e. case e of LibraryError m \<Rightarrow> m | _ \<Rightarrow> [])
     ''Dune'' ''book''
   = Inl (HTTPException 500 ''Search failed: connection refused'')"
  by (simp add: search_entities_def search_entities_body_def fetch_entity_id_value
        entity_id_of_dict io_bind_def requests_get_def)

section \<open>Properties of \<^verbatim>\<open>get_recommendations\<close>\<close>

lemma fetch_entity_id_returns:
  "\<exists>v n'. fetch_entity_id cfg up name t n = (Inr v, n')"
  by (auto simp: fetch_entity_id_value split: http_outcome.splits sum.splits)

lemma add_signal_extends:
  "\<exists>extra n'. add_signal cfg up name t ids n = (Inr (ids @ extra), n') \<and> length extra \<le> 1"
proof (cases "truthy name")
  case False
  then have "add_signal cfg up name t ids n = (Inr (ids @ []), n)"
    by (simp add: add_signal_def io_return_def)
  then show ?thesis by (metis length_0_conv zero_le)
next
  case True
  obtain v n' where f: "fetch_entity_id cfg up name t n = (Inr v, n')"
    using fetch_entity_id_returns by blast
  show ?thesis
  proof (cases "truthy v")
    case True
    with \<open>truthy name\<close> f have "add_signal cfg up name t ids n = (Inr (ids @ [v]), n')"
      by (simp add: add_signal_def io_bind_def io_return_def)
    then show ?thesis by (metis One_nat_def length_Cons list.size(3) order_refl)
  next
    case False
    with \<open>truthy name\<close> f have "add_signal cfg up name t ids n = (Inr (ids @ []), n')"
      by (simp add: add_signal_def io_bind_def io_return_def)
    then show ?thesis by (metis length_0_conv zero_le)
  qed
qed

lemma signal_set_favorites:
  "\<exists>resolved n'. signal_set cfg up eff favs n = (Inr (resolved @ favs), n') \<and> length resolved \<le> 3"
proof -
  obtain e1 n1 where s1: "add_signal cfg up (book_name eff) ''book'' [] n = (Inr ([] @ e1), n1)"
    and l1: "length e1 \<le> 1"
    using add_signal_extends[of cfg up "book_name eff" "''book''" "[]" n] by blast
  obtain e2 n2 where s2: "add_signal cfg up (movie_name eff) ''movie'' e1 n1 = (Inr (e1 @ e2), n2)"
    and l2: "length e2 \<le> 1"
    using add_signal_extends[of cfg up "movie_name eff" "''movie''" e1 n1] by blast
  obtain e3 n3 where s3: "add_signal cfg up (place_name eff) ''place'' (e1 @ e2) n2 = (Inr ((e1 @ e2) @ e3), n3)"
    and l3: "length e3 \<le> 1"
    using add_signal_extends[of cfg up "place_name eff" "''place''" "e1 @ e2" n2] by blast
  from s1 s2 s3 have "signal_set cfg up eff favs n = (Inr ((e1 @ e2 @ e3) @ favs), n3)"
    by (simp add: signal_set_def io_bind_def io_return_def)
  moreover from l1 l2 l3 have "length (e1 @ e2 @ e3) \<le> 3" by simp
  ultimately show ?thesis by blast
qed

lemma stored_preferences_get:
  "dict_get (stored_preferences d uid) ''book_name'' =
     (case find (\<lambda>r. PInt (p_user_id r) = uid) (t_user_preferences d) of
        None \<Rightarrow> PNone | Some r \<Rightarrow> p_book_name r)"
  "dict_get (stored_preferences d uid) ''movie_name'' =
     (case find (\<lambda>r. PInt (p_user_id r) = uid) (t_user_preferences d) of
        None \<Rightarrow> PNone | Some r \<Rightarrow> p_movie_name r)"
  "dict_get (stored_preferences d uid) ''place_name'' =
     (case find (\<lambda>r. PInt (p_user_id r) = uid) (t_user_preferences d) of
        None \<Rightarrow> PNone | Some r \<Rightarrow> p_place_name r)"
  "dict_get (stored_preferences d uid) ''age'' =
     (case find (\<lambda>r. PInt (p_user_id r) = uid) (t_user_preferences d) of
        None \<Rightarrow> PNone | Some r \<Rightarrow> p_age r)"
  "dict_get (stored_preferences d uid) ''gender'' =
     (case find (\<lambda>r. PInt (p_user_id r) = uid) (t_user_preferences d) of
        None \<Rightarrow> PNone | Some r \<Rightarrow> p_gender r)"
  by (simp_all add: stored_preferences_def dict_get_def split: option.splits)

text \<open>
  Claim C1, as stated, at an input where it fails: the request supplies the empty string
  as book name (the field is present), the account has the book name \<^verbatim>\<open>Dune\<close> stored,
  and the effective value is the stored one, not the one supplied.
\<close>

theorem empty_request_value_counterexample:
  "book_name \<lparr>book_name = PStr [], movie_name = PNone, place_name = PNone, age = PNone,
               gender = PNone\<rparr> \<noteq> PNone \<and>
   book_name
     (effective_preferences
        \<lparr>book_name = PStr [], movie_name = PNone, place_name = PNone, age = PNone,
         gender = PNone\<rparr>
        (stored_preferences
           \<lparr>t_users = [],
            t_user_preferences =
              [\<lparr>p_id = 1, p_user_id = 7, p_movie_name = PNone, p_book_name = PStr ''Dune'',
                p_place_name = PNone, p_age = PNone, p_gender = PNone\<rparr>],
            t_saved_items = []\<rparr>
           (PInt 7)))
     = PStr ''Dune'' \<and>
   PStr ''Dune'' \<noteq>
     book_name \<lparr>book_name = PStr [], movie_name = PNone, place_name = PNone, age = PNone,
                  gender = PNone\<rparr>"
  by (simp add: effective_preferences_def stored_preferences_def dict_get_def py_or_def)

text \<open>
  Claim C1, amended. For a recommendation request by an authenticated user (the user is a
  dict with the account's id), the effective value of each of the five preferences is the
  value supplied with the request when that value is present and not empty, otherwise
  the value stored in the account's preference row, and null when there is no such row.
  The signal set is the ids that resolved (at most three) followed by the external ids,
  those that are not empty, of the account's favorited saved items, whether or not a
  preference resolved.
\<close>

theorem effective_preferences_and_signals:
  assumes "map_of u ''id'' = Some uid"
  shows
    "get_recommendations cfg up d preference (get_current_user_optional (Inr (PDict u))) =
       fst (io_bind
              (signal_set cfg up (effective_preferences preference (stored_preferences d uid))
                 (favorites_of d uid))
              (\<lambda>entity_ids. recommend cfg up entity_ids
                 (age (effective_preferences preference (stored_preferences d uid)))
                 (gender (effective_preferences preference (stored_preferences d uid)))) 0) \<and>
     book_name (effective_preferences preference (stored_preferences d uid)) =
       (if truthy (book_name preference) then book_name preference
        else case find (\<lambda>r. PInt (p_user_id r) = uid) (t_user_preferences d) of
               None \<Rightarrow> PNone | Some r \<Rightarrow> p_book_name r) \<and>
     movie_name (effective_preferences preference (stored_preferences d uid)) =
       (if truthy (movie_name preference) then movie_name preference
        else case find (\<lambda>r. PInt (p_user_id r) = uid) (t_user_preferences d) of
               None \<Rightarrow> PNone | Some r \<Rightarrow> p_movie_name r) \<and>
     place_name (effective_preferences preference (stored_preferences d uid)) =
       (if truthy (place_name preference) then place_name preference
        else case find (\<lambda>r. PInt (p_user_id r) = uid) (t_user_preferences d) of
               None \<Rightarrow> PNone | Some r \<Rightarrow> p_place_name r) \<and>
     age (effective_preferences preference (stored_preferences d uid)) =
       (if truthy (age preference) then age preference
        else case find (\<lambda>r. PInt (p_user_id r) = uid) (t_user_preferences d) of
               None \<Rightarrow> PNone | Some r \<Rightarrow> p_age r) \<and>
     gender (effective_preferences preference (stored_preferences d uid)) =
       (if truthy (gender preference) then gender preference
        else case find (\<lambda>r. PInt (p_user_id r) = uid) (t_user_preferences d) of
               None \<Rightarrow> PNone | Some r \<Rightarrow> p_gender r) \<and>
     favorites_of d uid =
       map (\<lambda>item. PStr (s_item_id item))
         (filter (\<lambda>item. PInt (s_user_id item) = uid \<and> s_favorited item \<and> s_item_id item \<noteq> [])
            (t_saved_items d)) \<and>
     (\<exists>resolved n'.
        signal_set cfg up (effective_preferences preference (stored_preferences d uid))
          (favorites_of d uid) 0 = (Inr (resolved @ favorites_of d uid), n') \<and>
        length resolved \<le> 3)"
proof -
  from assms have "u \<noteq> []" by auto
  with assms have handler:
    "get_recommendations cfg up d preference (get_current_user_optional (Inr (PDict u))) =
       fst (io_bind
              (signal_set cfg up (effective_preferences preference (stored_preferences d uid))
                 (favorites_of d uid))
              (\<lambda>entity_ids. recommend cfg up entity_ids
                 (age (effective_preferences preference (stored_preferences d uid)))
                 (gender (effective_preferences preference (stored_preferences d uid)))) 0)"
    by (simp add: get_recommendations_def get_current_user_optional_def load_user_def Let_def)
  have favs: "favorites_of d uid =
       map (\<lambda>item. PStr (s_item_id item))
         (filter (\<lambda>item. PInt (s_user_id item) = uid \<and> s_favorited item \<and> s_item_id item \<noteq> [])
            (t_saved_items d))"
    by (simp add: favorites_of_def conj_commute conj_left_commute cong: conj_cong)
  show ?thesis
    apply (intro conjI)
           apply (rule handler)
          apply (simp add: effective_preferences_def py_or_def stored_preferences_get)
         apply (simp add: effective_preferences_def py_or_def stored_preferences_get)
        apply (simp add: effective_preferences_def py_or_def stored_preferences_get)
       apply (simp add: effective_preferences_def py_or_def stored_preferences_get)
      apply (simp add: effective_preferences_def py_or_def stored_preferences_get)
     apply (rule favs)
    apply (rule signal_set_favorites)
    done
qed


theorem effective_preferences_and_signals_witness:
  "map_of [(''id'', PInt 7)] ''id'' = Some (PInt 7) \<and>
   book_name
     (effective_preferences
        \<lparr>book_name = PStr ''Emma'', movie_name = PNone, place_name = PNone, age = PNone,
         gender = PNone\<rparr>
        (stored_preferences
           \<lparr>t_users = [],
            t_user_preferences =
              [\<lparr>p_id = 1, p_user_id = 7, p_movie_name = PStr ''Alien'',
                p_book_name = PStr ''Dune'', p_place_name = PNone, p_age = PNone,
                p_gender = PNone\<rparr>],
            t_saved_items = []\<rparr>
           (PInt 7))) = PStr ''Emma'' \<and>
   movie_name
     (effective_preferences
        \<lparr>book_name = PStr ''Emma'', movie_name = PNone, place_name = PNone, age = PNone,
         gender = PNone\<rparr>
        (stored_preferences
           \<lparr>t_users = [],
            t_user_preferences =
              [\<lparr>p_id = 1, p_user_id = 7, p_movie_name = PStr ''Alien'',
                p_book_name = PStr ''Dune'', p_place_name = PNone, p_age = PNone,
                p_gender = PNone\<rparr>],
            t_saved_items = []\<rparr>
           (PInt 7))) = PStr ''Alien''"
  using effective_preferences_and_signals
    [of "[(''id'', PInt 7)]" "PInt 7"
        "\<lparr>QLOO_API_BASE = ''https://q'', QLOO_API_KEY = PStr ''key''\<rparr>"
        "\<lambda>n r. Raises (LibraryError ''timed out'')"
        "\<lparr>t_users = [],
          t_user_preferences =
            [\<lparr>p_id = 1, p_user_id = 7, p_movie_name = PStr ''Alien'',
              p_book_name = PStr ''Dune'', p_place_name = PNone, p_age = PNone,
              p_gender = PNone\<rparr>],
          t_saved_items = []\<rparr>"
        "\<lparr>book_name = PStr ''Emma'', movie_name = PNone, place_name = PNone, age = PNone,
          gender = PNone\<rparr>"]
  by simp

text \<open>
  Claim C5. When the signal set of a recommendation request is empty, the handler
  returns a response, not an error: the four lists are empty, and the message is the one
  about the API key when no key is configured and the one about preferences otherwise;
  the two messages differ.
\<close>

theorem no_signals_response:
  assumes "load_user d current_user = Inr (stored, favs)"
    and "fst (signal_set cfg up (effective_preferences preference stored) favs 0) = Inr []"
  shows "get_recommendations cfg up d preference current_user =
           Inr (PDict
             [(''book_recs'', PList []), (''popular_books'', PList []),
              (''movie_recs'', PList []), (''tv_show_recs'', PList []),
              (''message'',
                 PStr (if truthy (QLOO_API_KEY cfg)
                       then ''No preferences found. Please set your preferences first.''
                       else ''API key not configured. Please set QLOO_API_KEY in your .env file.''))]) \<and>
         ''No preferences found. Please set your preferences first.'' \<noteq>
         ''API key not configured. Please set QLOO_API_KEY in your .env file.''"
proof -
  obtain n' where s: "signal_set cfg up (effective_preferences preference stored) favs 0 = (Inr [], n')"
    using assms(2) by (cases "signal_set cfg up (effective_preferences preference stored) favs 0") simp
  have "get_recommendations cfg up d preference current_user =
          fst (recommend cfg up []
                 (age (effective_preferences preference stored))
                 (gender (effective_preferences preference stored)) n')"
    using assms(1) s by (simp add: get_recommendations_def io_bind_def Let_def)
  then show ?thesis
    by (simp add: recommend_def io_return_def empty_recommendations_def
          no_api_key_message_def no_preferences_message_def)
qed

theorem no_signals_response_witness:
  "get_recommendations \<lparr>QLOO_API_BASE = ''https://q'', QLOO_API_KEY = PNone\<rparr>
     (\<lambda>n r. Raises (LibraryError ''timed out''))
     \<lparr>t_users = [], t_user_preferences = [], t_saved_items = []\<rparr>
     \<lparr>book_name = PStr ''Emma'', movie_name = PNone, place_name = PNone, age = PNone,
      gender = PNone\<rparr> PNone =
     Inr (PDict
       [(''book_recs'', PList []), (''popular_books'', PList []),
        (''movie_recs'', PList []), (''tv_show_recs'', PList []),
        (''message'',
           PStr ''API key not configured. Please set QLOO_API_KEY in your .env file.'')]) \<and>
   get_recommendations \<lparr>QLOO_API_BASE = ''https://q'', QLOO_API_KEY = PStr ''key''\<rparr>
     (\<lambda>n r. Raises (LibraryError ''timed out''))
     \<lparr>t_users = [], t_user_preferences = [], t_saved_items = []\<rparr>
     \<lparr>book_name = PStr ''Emma'', movie_name = PNone, place_name = PNone, age = PNone,
      gender = PNone\<rparr> PNone =
     Inr (PDict
       [(''book_recs'', PList []), (''popular_books'', PList []),
        (''movie_recs'', PList []), (''tv_show_recs'', PList []),
        (''message'', PStr ''No preferences found. Please set your preferences first.'')])"
proof -
  have l: "load_user \<lparr>t_users = [], t_user_preferences = [], t_saved_items = []\<rparr> PNone
             = Inr ([], [])"
    by (simp add: load_user_def)
  have s1: "fst (signal_set \<lparr>QLOO_API_BASE = ''https://q'', QLOO_API_KEY = PNone\<rparr>
                   (\<lambda>n r. Raises (LibraryError ''timed out''))
                   (effective_preferences
                      \<lparr>book_name = PStr ''Emma'', movie_name = PNone, place_name = PNone,
                       age = PNone, gender = PNone\<rparr> []) [] 0) = Inr []"
    by (simp add: signal_set_def add_signal_def effective_preferences_def py_or_def dict_get_def
          fetch_entity_id_value io_bind_def io_return_def)
  have s2: "fst (signal_set \<lparr>QLOO_API_BASE = ''https://q'', QLOO_API_KEY = PStr ''key''\<rparr>
                   (\<lambda>n r. Raises (LibraryError ''timed out''))
                   (effective_preferences
                      \<lparr>book_name = PStr ''Emma'', movie_name = PNone, place_name = PNone,
                       age = PNone, gender = PNone\<rparr> []) [] 0) = Inr []"
    by (simp add: signal_set_def add_signal_def effective_preferences_def py_or_def dict_get_def
          fetch_entity_id_value io_bind_def io_return_def)
  from no_signals_response[OF l s1] no_signals_response[OF l s2] show ?thesis by simp
qed

section \<open>Properties of \<^verbatim>\<open>login\<close> and \<^verbatim>\<open>save_preferences\<close>\<close>

text \<open>
  Claim C2. A login with a username no account has and a login with the username of an
  account and a password that does not verify fail with the same error: status 401 and
  the message \<^verbatim>\<open>Incorrect username or password\<close>.
\<close>

theorem login_uniform_denial:
  assumes "find (\<lambda>u. u_username u = login_username unknown) (t_users d) = None"
    and "find (\<lambda>u. u_username u = login_username known) (t_users d) = Some user"
    and "\<not> verify_password (login_password known) (u_hashed_password user)"
  shows "login verify_password create_access_token d unknown =
           Inl (HTTPException 401 ''Incorrect username or password'') \<and>
         login verify_password create_access_token d known =
           login verify_password create_access_token d unknown"
  using assms by (simp add: login_def)

theorem login_uniform_denial_witness:
  "login (\<lambda>plain hashed. hashed = ''h:'' @ plain) (\<lambda>sub. ''token:'' @ sub)
     \<lparr>t_users = [\<lparr>u_id = 1, u_email = ''a@x.com'', u_username = ''alice'',
                   u_hashed_password = ''h:pw123''\<rparr>],
      t_user_preferences = [], t_saved_items = []\<rparr>
     \<lparr>login_username = ''bob'', login_password = ''pw123''\<rparr> =
     Inl (HTTPException 401 ''Incorrect username or password'') \<and>
   login (\<lambda>plain hashed. hashed = ''h:'' @ plain) (\<lambda>sub. ''token:'' @ sub)
     \<lparr>t_users = [\<lparr>u_id = 1, u_email = ''a@x.com'', u_username = ''alice'',
                   u_hashed_password = ''h:pw123''\<rparr>],
      t_user_preferences = [], t_saved_items = []\<rparr>
     \<lparr>login_username = ''alice'', login_password = ''wrong''\<rparr> =
     Inl (HTTPException 401 ''Incorrect username or password'')"
  using login_uniform_denial
    [of "\<lparr>login_username = ''bob'', login_password = ''pw123''\<rparr>"
        "\<lparr>t_users = [\<lparr>u_id = 1, u_email = ''a@x.com'', u_username = ''alice'',
                      u_hashed_password = ''h:pw123''\<rparr>],
          t_user_preferences = [], t_saved_items = []\<rparr>"
        "\<lparr>login_username = ''alice'', login_password = ''wrong''\<rparr>"
        "\<lparr>u_id = 1, u_email = ''a@x.com'', u_username = ''alice'',
          u_hashed_password = ''h:pw123''\<rparr>"
        "\<lambda>plain hashed. hashed = ''h:'' @ plain" "\<lambda>sub. ''token:'' @ sub"]
  by simp

lemma find_update_first:
  "find P xs = Some x \<Longrightarrow> P (f x) \<Longrightarrow> find P (update_first P f xs) = Some (f x)"
  by (induction xs) (auto split: if_splits)

lemma length_update_first: "length (update_first P f xs) = length xs"
  by (induction xs) auto

lemma bound_preferences_unchanged:
  assumes "\<forall>k \<in> set preference_keys. bind (dict_get preferences k) = Inr (dict_get preferences k)"
  shows "bound_preferences bind preferences =
           Inr [(''movie_name'', dict_get preferences ''movie_name''),
                (''book_name'', dict_get preferences ''book_name''),
                (''place_name'', dict_get preferences ''place_name''),
                (''age'', dict_get preferences ''age''),
                (''gender'', dict_get preferences ''gender'')]"
  using assms by (simp add: bound_preferences_def preference_keys_def)

lemma save_preferences_refused:
  assumes "verify_token token = Some username"
    and "find (\<lambda>u. u_username u = username) (t_users d) = Some user"
    and "bound_preferences bind preferences = Inl e"
  shows "save_preferences verify_token bind str_exc d preferences token =
           (Inl (HTTPException 500 (''Failed to save preferences: '' @ str_exc e)), d)"
  using assms by (simp add: save_preferences_def)

text \<open>
  Claim C10, as stated, at an input where it fails. The body gives a list as book name,
  a value the store refuses to take into the column: the commit raises, the handler
  rolls back and answers with status 500, and the five fields keep their values.
\<close>

theorem unbindable_preference_counterexample:
  "save_preferences (\<lambda>tok. if tok = ''t1'' then Some ''alice'' else None)
     (\<lambda>v. case v of
             PList xs \<Rightarrow> Inl (LibraryError ''Error binding parameter'')
           | PDict kvs \<Rightarrow> Inl (LibraryError ''Error binding parameter'')
           | _ \<Rightarrow> Inr v)
     (\<lambda>e. case e of LibraryError m \<Rightarrow> m | _ \<Rightarrow> [])
     \<lparr>t_users = [\<lparr>u_id = 1, u_email = ''a@x.com'', u_username = ''alice'',
                   u_hashed_password = ''h''\<rparr>],
      t_user_preferences =
        [\<lparr>p_id = 1, p_user_id = 1, p_movie_name = PStr ''Alien'',
          p_book_name = PStr ''Dune'', p_place_name = PStr ''Rome'', p_age = PStr ''35_to_44'',
          p_gender = PStr ''female''\<rparr>],
      t_saved_items = []\<rparr>
     [(''book_name'', PList [PStr ''Emma''])] ''t1'' =
   (Inl (HTTPException 500 ''Failed to save preferences: Error binding parameter''),
    \<lparr>t_users = [\<lparr>u_id = 1, u_email = ''a@x.com'', u_username = ''alice'',
                   u_hashed_password = ''h''\<rparr>],
      t_user_preferences =
        [\<lparr>p_id = 1, p_user_id = 1, p_movie_name = PStr ''Alien'',
          p_book_name = PStr ''Dune'', p_place_name = PStr ''Rome'', p_age = PStr ''35_to_44'',
          p_gender = PStr ''female''\<rparr>],
      t_saved_items = []\<rparr>)"
  by (simp add: save_preferences_def bound_preferences_def preference_keys_def dict_get_def)

text \<open>
  Claim C10, amended. For an authenticated request to save preferences against an
  account that has a preference row, when the store takes each of the five values of the
  body as it is (as it does a string and null), the request succeeds and the row
  afterwards holds, in each of the five fields, the value of the request body under that
  key, which is null for a key the body does not have; the other columns of the row and
  the number of rows are unchanged.
\<close>

theorem save_preferences_overwrites:
  assumes "verify_token token = Some username"
    and "find (\<lambda>u. u_username u = username) (t_users d) = Some user"
    and "find (\<lambda>r. p_user_id r = u_id user) (t_user_preferences d) = Some existing"
    and "\<forall>k \<in> set preference_keys.
           bind (dict_get preferences k) = Inr (dict_get preferences k)"
  shows "fst (save_preferences verify_token bind str_exc d preferences token) =
           Inr (PDict [(''message'', PStr ''Preferences saved successfully'')]) \<and>
         find (\<lambda>r. p_user_id r = u_id user)
           (t_user_preferences
              (snd (save_preferences verify_token bind str_exc d preferences token))) =
           Some (existing\<lparr>p_movie_name := dict_get preferences ''movie_name'',
                          p_book_name := dict_get preferences ''book_name'',
                          p_place_name := dict_get preferences ''place_name'',
                          p_age := dict_get preferences ''age'',
                          p_gender := dict_get preferences ''gender''\<rparr>) \<and>
         length (t_user_preferences
                   (snd (save_preferences verify_token bind str_exc d preferences token))) =
           length (t_user_preferences d) \<and>
         (\<forall>k. k \<notin> set (map fst preferences) \<longrightarrow> dict_get preferences k = PNone)"
proof -
  from assms(3) have own: "p_user_id existing = u_id user"
    by (auto simp: find_Some_iff)
  have absent: "\<forall>k. k \<notin> set (map fst preferences) \<longrightarrow> dict_get preferences k = PNone"
    by (simp add: dict_get_def key_in_dict)
  note written = bound_preferences_unchanged[OF assms(4)]
  have get:
    "dict_get [(''movie_name'', dict_get preferences ''movie_name''),
                (''book_name'', dict_get preferences ''book_name''),
                (''place_name'', dict_get preferences ''place_name''),
                (''age'', dict_get preferences ''age''),
                (''gender'', dict_get preferences ''gender'')] k = dict_get preferences k"
    if "k \<in> set preference_keys" for k
    using that by (auto simp: preference_keys_def dict_get_def)
  from assms(1,2,3) own show ?thesis
    by (simp add: save_preferences_def written get preference_keys_def
          find_update_first length_update_first absent)
qed

theorem save_preferences_overwrites_witness:
  "t_user_preferences
     (snd (save_preferences (\<lambda>tok. if tok = ''t1'' then Some ''alice'' else None)
        (\<lambda>v. case v of
                PList xs \<Rightarrow> Inl (LibraryError ''Error binding parameter'')
              | PDict kvs \<Rightarrow> Inl (LibraryError ''Error binding parameter'')
              | _ \<Rightarrow> Inr v)
        (\<lambda>e. case e of LibraryError m \<Rightarrow> m | _ \<Rightarrow> [])
        \<lparr>t_users = [\<lparr>u_id = 1, u_email = ''a@x.com'', u_username = ''alice'',
                      u_hashed_password = ''h''\<rparr>],
         t_user_preferences =
           [\<lparr>p_id = 1, p_user_id = 1, p_movie_name = PStr ''Alien'',
             p_book_name = PStr ''Dune'', p_place_name = PStr ''Rome'', p_age = PStr ''35_to_44'',
             p_gender = PStr ''female''\<rparr>],
         t_saved_items = []\<rparr>
        [(''book_name'', PStr ''Emma'')] ''t1'')) =
     [\<lparr>p_id = 1, p_user_id = 1, p_movie_name = PNone, p_book_name = PStr ''Emma'',
       p_place_name = PNone, p_age = PNone, p_gender = PNone\<rparr>]"
proof -
  let ?vt = "\<lambda>tok. if tok = ''t1'' then Some ''alice'' else None"
  let ?bind = "\<lambda>v. case v of
                PList xs \<Rightarrow> Inl (LibraryError ''Error binding parameter'')
              | PDict kvs \<Rightarrow> Inl (LibraryError ''Error binding parameter'')
              | _ \<Rightarrow> Inr v"
  let ?se = "\<lambda>e. case e of LibraryError m \<Rightarrow> m | _ \<Rightarrow> []"
  let ?u = "\<lparr>u_id = 1, u_email = ''a@x.com'', u_username = ''alice'', u_hashed_password = ''h''\<rparr>"
  let ?e = "\<lparr>p_id = 1, p_user_id = 1, p_movie_name = PStr ''Alien'',
             p_book_name = PStr ''Dune'', p_place_name = PStr ''Rome'', p_age = PStr ''35_to_44'',
             p_gender = PStr ''female''\<rparr>"
  let ?d = "\<lparr>t_users = [?u], t_user_preferences = [?e], t_saved_items = []\<rparr>"
  let ?body = "[(''book_name'', PStr ''Emma'')]"
  have a: "?vt ''t1'' = Some ''alice''" by simp
  have b: "find (\<lambda>u. u_username u = ''alice'') (t_users ?d) = Some ?u" by simp
  have c: "find (\<lambda>r. p_user_id r = u_id ?u) (t_user_preferences ?d) = Some ?e" by simp
  have e: "\<forall>k \<in> set preference_keys. ?bind (dict_get ?body k) = Inr (dict_get ?body k)"
    by (simp add: preference_keys_def dict_get_def)
  from save_preferences_overwrites
         [where verify_token = ?vt and token = "''t1''" and username = "''alice''" and d = ?d
            and user = ?u and existing = ?e and bind = ?bind and preferences = ?body
            and str_exc = ?se, OF a b c e]
  show ?thesis
    by (cases "t_user_preferences (snd (save_preferences ?vt ?bind ?se ?d ?body ''t1''))")
       (auto simp: dict_get_def split: if_splits)
qed


section \<open>Properties of \<^verbatim>\<open>save_item\<close>\<close>

lemma map_update_first:
  "(\<And>x. g (f x) = g x) \<Longrightarrow> map g (update_first P f xs) = map g xs"
  by (induction xs) auto

lemma filter_update_first:
  assumes "distinct (map g xs)" and "\<And>x. P x = (g x = k)" and "\<And>x. g (f x) = g x"
    and "find P xs = Some r"
  shows "filter P (update_first P f xs) = [f r]"
  using assms(1,4)
proof (induction xs)
  case Nil
  then show ?case by simp
next
  case (Cons x xs)
  show ?case
  proof (cases "P x")
    case True
    with Cons.prems have r: "r = x" by simp
    from True assms(2) have gx: "g x = k" by simp
    from Cons.prems(1) gx have "k \<notin> g ` set xs" by simp
    then have "\<forall>y \<in> set xs. g y \<noteq> k" by blast
    with assms(2) have e: "filter P xs = []" by (simp add: filter_empty_conv)
    from gx assms(2,3) have "P (f x)" by simp
    with True r e show ?thesis by simp
  next
    case False
    with Cons show ?thesis by simp
  qed
qed

lemma update_first_same: "update_first P (\<lambda>x. x) xs = xs"
  by (induction xs) auto

lemma filter_unique:
  assumes "distinct (map g xs)" and "\<And>x. P x = (g x = k)" and "find P xs = Some r"
  shows "filter P xs = [r]"
  using filter_update_first[OF assms(1,2) _ assms(3), of "\<lambda>x. x"]
  by (simp add: update_first_same)


lemma save_item_step:
  assumes u: "unique_saved d"
    and tok: "verify_token token = Some username"
    and usr: "find (\<lambda>u. u_username u = username) (t_users d) = Some user"
    and ok: "item_id item \<noteq> []" "item_name item \<noteq> []"
  shows "\<exists>row resp.
           fst (save_item verify_token now d item token) = Inr resp \<and>
           r_favorited resp = favorited item \<and>
           rows_for (snd (save_item verify_token now d item token)) (u_id user) (item_id item)
             = [row] \<and>
           s_favorited row = favorited item \<and>
           unique_saved (snd (save_item verify_token now d item token)) \<and>
           t_users (snd (save_item verify_token now d item token)) = t_users d"
proof -
  let ?P = "\<lambda>s. s_user_id s = u_id user \<and> s_item_id s = item_id item"
  let ?g = "\<lambda>s. (s_user_id s, s_item_id s)"
  let ?f = "\<lambda>s. s\<lparr>s_favorited := favorited item\<rparr>"
  have P: "\<And>x. ?P x = (?g x = (u_id user, item_id item))" by auto
  have f: "\<And>x. ?g (?f x) = ?g x" by simp
  from u have dist: "distinct (map ?g (t_saved_items d))" by (simp add: unique_saved_def)
  show ?thesis
  proof (cases "find ?P (t_saved_items d)")
    case None
    then have no: "\<forall>s \<in> set (t_saved_items d). \<not> ?P s" by (simp add: find_None_iff)
    then have e: "filter ?P (t_saved_items d) = []" by (simp add: filter_empty_conv)
    from no have fresh: "(u_id user, item_id item) \<notin> ?g ` set (t_saved_items d)" by auto
    from None tok usr ok e dist fresh show ?thesis
      by (simp add: save_item_def Let_def rows_for_def unique_saved_def response_of_def)
  next
    case (Some existing)
    show ?thesis
    proof (cases "s_favorited existing = favorited item")
      case True
      from filter_unique[OF dist P Some] have "filter ?P (t_saved_items d) = [existing]" .
      with Some True tok usr ok u show ?thesis
        by (simp add: save_item_def rows_for_def response_of_def)
    next
      case False
      from filter_update_first[OF dist P f Some]
      have "filter ?P (update_first ?P ?f (t_saved_items d)) = [?f existing]" .
      moreover from map_update_first[of ?g ?f ?P "t_saved_items d"] dist
      have "distinct (map ?g (update_first ?P ?f (t_saved_items d)))" by simp
      ultimately show ?thesis using Some False tok usr ok
        by (simp add: save_item_def rows_for_def response_of_def unique_saved_def)
    qed
  qed
qed

text \<open>
  Claim C4. In a store where no account holds two rows for one external id, let an
  authenticated account save the same item id twice, with the same or with different
  favorited values. Both saves succeed, and afterwards the store holds exactly one row
  for that account and item id, whose favorited field is the value of the second save;
  the store still has no duplicate rows.
\<close>

theorem save_item_twice:
  assumes "unique_saved d"
    and "verify_token token = Some username"
    and "find (\<lambda>u. u_username u = username) (t_users d) = Some user"
    and "item_id item1 \<noteq> []" and "item_name item1 \<noteq> []"
    and "item_id item2 = item_id item1" and "item_name item2 \<noteq> []"
  shows "\<exists>row resp.
           fst (save_item verify_token now2
                  (snd (save_item verify_token now1 d item1 token)) item2 token) = Inr resp \<and>
           r_favorited resp = favorited item2 \<and>
           rows_for (snd (save_item verify_token now2
                            (snd (save_item verify_token now1 d item1 token)) item2 token))
             (u_id user) (item_id item1) = [row] \<and>
           s_favorited row = favorited item2 \<and>
           unique_saved (snd (save_item verify_token now2
                                (snd (save_item verify_token now1 d item1 token)) item2 token))"
proof -
  let ?d1 = "snd (save_item verify_token now1 d item1 token)"
  from save_item_step[where verify_token = verify_token and now = now1, OF assms(1,2,3,4,5)]
  have u1: "unique_saved ?d1" and users1: "t_users ?d1 = t_users d" by auto
  from assms(3) users1 have usr1: "find (\<lambda>u. u_username u = username) (t_users ?d1) = Some user"
    by simp
  from assms(4,6) have id2: "item_id item2 \<noteq> []" by simp
  from save_item_step[where verify_token = verify_token and now = now2,
         OF u1 assms(2) usr1 id2 assms(7)] assms(6)
  show ?thesis by auto
qed


theorem save_item_twice_witness:
  "rows_for
     (snd (save_item (\<lambda>tok. if tok = ''t1'' then Some ''alice'' else None) 2
        (snd (save_item (\<lambda>tok. if tok = ''t1'' then Some ''alice'' else None) 1
           \<lparr>t_users = [\<lparr>u_id = 1, u_email = ''a@x.com'', u_username = ''alice'',
                         u_hashed_password = ''h''\<rparr>],
            t_user_preferences = [], t_saved_items = []\<rparr>
           \<lparr>item_id = ''m1'', item_name = ''Dune'', item_type = ''movie'', item_image = [],
            item_description = [], favorited = False\<rparr> ''t1''))
        \<lparr>item_id = ''m1'', item_name = ''Dune'', item_type = ''movie'', item_image = [],
         item_description = [], favorited = True\<rparr> ''t1''))
     1 ''m1'' =
   [\<lparr>s_id = 1, s_user_id = 1, s_item_id = ''m1'', s_item_name = ''Dune'',
     s_item_type = ''movie'', s_item_image = [], s_item_description = [],
     s_favorited = True, s_saved_at = 1\<rparr>]"
  using save_item_twice
    [where verify_token = "\<lambda>tok. if tok = ''t1'' then Some ''alice'' else None"
       and token = "''t1''" and username = "''alice''"
       and d = "\<lparr>t_users = [\<lparr>u_id = 1, u_email = ''a@x.com'', u_username = ''alice'',
                                u_hashed_password = ''h''\<rparr>],
                   t_user_preferences = [], t_saved_items = []\<rparr>"
       and user = "\<lparr>u_id = 1, u_email = ''a@x.com'', u_username = ''alice'',
                      u_hashed_password = ''h''\<rparr>"
       and ?item1.0 = "\<lparr>item_id = ''m1'', item_name = ''Dune'', item_type = ''movie'',
                        item_image = [], item_description = [], favorited = False\<rparr>"
       and ?item2.0 = "\<lparr>item_id = ''m1'', item_name = ''Dune'', item_type = ''movie'',
                        item_image = [], item_description = [], favorited = True\<rparr>"
       and ?now1.0 = 1 and ?now2.0 = 2]
  by (simp add: save_item_def rows_for_def next_id_def unique_saved_def response_of_def)

section \<open>Properties of \<^verbatim>\<open>convert_natural_language\<close>\<close>

lemma convert_on_text:
  "generate_content query = Generated (Inr raw) \<Longrightarrow>
   convert_natural_language True generate_content json_loads str_val validate str_exc query =
     (case parse_response json_loads str_val validate (Inr raw) of
        Inl e \<Rightarrow> Inl (error_response (str_exc e))
      | Inr r \<Rightarrow> Inr r)"
  by (simp add: convert_natural_language_def)

text \<open>
  The three cases the handler turns into a response with \<^verbatim>\<open>success = false\<close>: a text
  that is not JSON, a decoded object whose \<^verbatim>\<open>entity_name\<close> or \<^verbatim>\<open>entity_type\<close> is
  missing or empty, and a decoded object with a confidence, a number, below the float
  \<^verbatim>\<open>0.3\<close>.
\<close>

lemma convert_failure_responses:
  assumes "generate_content query = Generated (Inr raw)"
  shows
    "(json_loads (response_text raw) = None \<longrightarrow>
        convert_natural_language True generate_content json_loads str_val validate str_exc query =
          Inr (failure ''Failed to parse Gemini response'')) \<and>
     (json_loads (response_text raw) = Some (PDict r) \<and>
      (\<not> truthy (dict_get r ''entity_name'') \<or> \<not> truthy (dict_get r ''entity_type'')) \<longrightarrow>
        convert_natural_language True generate_content json_loads str_val validate str_exc query =
          Inr (failure ''Could not extract a valid entity name from the response'')) \<and>
     (json_loads (response_text raw) = Some (PDict r) \<and>
      ((\<exists>c. map_of r ''confidence'' = Some (PFloat (Finite c)) \<and> c < threshold) \<or>
       (\<exists>i. map_of r ''confidence'' = Some (PInt i) \<and> of_int i < threshold) \<or>
       map_of r ''confidence'' = Some (PFloat NegInf)) \<longrightarrow>
        (\<exists>res. convert_natural_language True generate_content json_loads str_val validate
                 str_exc query = Inr res \<and> \<not> g_success res))"
proof -
  note conv = convert_on_text[where generate_content = generate_content and query = query,
      OF assms]
  have parse: "json_loads (response_text raw) = None \<Longrightarrow>
        convert_natural_language True generate_content json_loads str_val validate str_exc query =
          Inr (failure ''Failed to parse Gemini response'')"
    by (simp add: conv parse_response_def)
  have missing: "convert_natural_language True generate_content json_loads str_val validate
                   str_exc query =
          Inr (failure ''Could not extract a valid entity name from the response'')"
    if "json_loads (response_text raw) = Some (PDict r)"
      and "\<not> truthy (dict_get r ''entity_name'') \<or> \<not> truthy (dict_get r ''entity_type'')"
    using that
    by (auto simp: conv parse_response_def checked_result_def dict_get_def)
  have low: "\<exists>res. convert_natural_language True generate_content json_loads str_val validate
                 str_exc query = Inr res \<and> \<not> g_success res"
    if j: "json_loads (response_text raw) = Some (PDict r)"
      and b: "below_threshold (case map_of r ''confidence'' of None \<Rightarrow> PInt 0 | Some v \<Rightarrow> v) = Inr True"
  proof -
    have "\<exists>res. checked_result str_val validate (PDict r) = Inr res \<and> \<not> g_success res"
      using b by (simp add: checked_result_def failure_def)
    then obtain res where "checked_result str_val validate (PDict r) = Inr res" "\<not> g_success res"
      by blast
    with j show ?thesis
      by (simp add: conv parse_response_def)
  qed
  have low': "\<exists>res. convert_natural_language True generate_content json_loads str_val validate
                 str_exc query = Inr res \<and> \<not> g_success res"
    if "json_loads (response_text raw) = Some (PDict r)"
      and "(\<exists>c. map_of r ''confidence'' = Some (PFloat (Finite c)) \<and> c < threshold) \<or>
           (\<exists>i. map_of r ''confidence'' = Some (PInt i) \<and> of_int i < threshold) \<or>
           map_of r ''confidence'' = Some (PFloat NegInf)"
    using that(2) by (auto intro!: low[OF that(1)])
  from parse missing low' show ?thesis by blast
qed

lemma response_text_array: "response_text (ascii ''[1, 2]'') = ascii ''[1, 2]''"
  by (simp add: response_text_def strip_def is_space_def ascii_def Let_def suffix_to_prefix)

text \<open>
  Claim C9, at an input where the handler does not meet it. The generative call answers
  with the text \<^verbatim>\<open>[1, 2]\<close>: it is JSON but not an object, so it has neither
  \<^verbatim>\<open>entity_name\<close> nor \<^verbatim>\<open>entity_type\<close>. The test of line 104 calls \<^verbatim>\<open>.get\<close> on the
  list and raises \<^verbatim>\<open>AttributeError\<close>, which the inner \<^verbatim>\<open>try\<close> does not catch, and the
  outer handler answers with status 500 instead of a response with \<^verbatim>\<open>success = false\<close>.
\<close>

theorem convert_non_object_500:
  "convert_natural_language True
     (\<lambda>q. Generated (Inr (ascii ''[1, 2]'')))
     (\<lambda>t. if t = ascii ''[1, 2]'' then Some (PList [PInt 1, PInt 2]) else None)
     (\<lambda>v. []) Inr
     (\<lambda>e. case e of
             AttributeError \<Rightarrow> '''list' object has no attribute 'get'' @ [CHR 0x27]
           | LibraryError m \<Rightarrow> m
           | _ \<Rightarrow> [])
     \<lparr>gq_query = ''a book about sand'', gq_entity_type = ''book''\<rparr>
   = Inl (HTTPException 500
            (''Failed to process natural language query: 'list' object has no attribute 'get'' @
             [CHR 0x27]))"
  by (simp add: convert_natural_language_def parse_response_def response_text_array
        checked_result_def error_response_def lower_def sublist_code prefix_code)

end
